theory Spec2Isabelle
  imports Main "HOL-Library.Word"
begin

unbundle bit_operations_syntax

section \<open>Self-disposing socket messages (src/brpc/socket_message.h)\<close>

subsection \<open>Objects, pointers and the log of calls\<close>

text \<open>
  A \<^verbatim>\<open>butil::IOBuf\<close> is the byte sequence it holds, a \<^verbatim>\<open>butil::Status\<close> an error code
  with its text (code 0 is OK). A \<^verbatim>\<open>Socket*\<close> is \<open>None\<close> when it is \<^verbatim>\<open>NULL\<close>.
\<close>

type_synonym IOBuf = "8 word list"

datatype Status = Status (error_code: int) (error_str: string)

type_synonym socket_id = nat

type_synonym msg_addr = nat

text \<open>
  \<^verbatim>\<open>class SocketMessage\<close> has two virtual methods; an object is the pair of their
  implementations (its vtable, closed over the object's fields).
\<close>

record SocketMessage =
  AppendAndDestroySelf :: "IOBuf \<Rightarrow> socket_id option \<Rightarrow> Status \<times> IOBuf"
  EstimatedByteSize :: nat

text \<open>\<^verbatim>\<open>virtual size_t EstimatedByteSize() { return 0; }\<close>: the base-class implementation.\<close>

definition SocketMessage_EstimatedByteSize :: nat where
  "SocketMessage_EstimatedByteSize = 0"

text \<open>A concrete message class that overrides only the pure virtual method.\<close>

definition plain_message :: "(IOBuf \<Rightarrow> socket_id option \<Rightarrow> Status \<times> IOBuf) \<Rightarrow> SocketMessage" where
  "plain_message gen =
     \<lparr>AppendAndDestroySelf = gen, EstimatedByteSize = SocketMessage_EstimatedByteSize\<rparr>"

text \<open>
  The world: the live message objects by address, and the log of every call of
  \<^verbatim>\<open>AppendAndDestroySelf\<close> (the object called, the socket passed), oldest first.
\<close>

record world =
  objects :: "msg_addr \<rightharpoonup> SocketMessage"
  calls :: "(msg_addr \<times> socket_id option) list"

datatype fault = NullDereference | UseAfterDestroy

text \<open>
  The virtual call \<^verbatim>\<open>msg->AppendAndDestroySelf(out, sock)\<close>. Calling through a null or a
  dangling pointer is undefined behaviour, a fault of the model. The object destroys itself
  at the end of the method ("This object should destroy itself at the end of this method").
\<close>

definition call_AppendAndDestroySelf ::
  "msg_addr option \<Rightarrow> IOBuf \<Rightarrow> socket_id option \<Rightarrow> world \<Rightarrow> fault + (Status \<times> IOBuf \<times> world)" where
  "call_AppendAndDestroySelf msg out sock w =
     (case msg of
        None \<Rightarrow> Inl NullDereference
      | Some a \<Rightarrow>
          (case objects w a of
             None \<Rightarrow> Inl UseAfterDestroy
           | Some obj \<Rightarrow>
               (case AppendAndDestroySelf obj out sock of
                  (st, out') \<Rightarrow>
                    Inr (st, out', w\<lparr>objects := (objects w)(a := None),
                                      calls := calls w @ [(a, sock)]\<rparr>))))"

text \<open>
  \<^verbatim>\<open>details::SocketMessageDeleter::operator()\<close>: an empty dummy buffer, a \<^verbatim>\<open>NULL\<close> socket,
  the returned status cast to void. The pointer is dereferenced without a test.
\<close>

definition SocketMessageDeleter :: "msg_addr option \<Rightarrow> world \<Rightarrow> fault + world" where
  "SocketMessageDeleter msg w =
     (let dummy_buf = [] in
      case call_AppendAndDestroySelf msg dummy_buf None w of
        Inl f \<Rightarrow> Inl f
      | Inr (st, out, w') \<Rightarrow> Inr w')"

subsection \<open>The owning wrapper\<close>

text \<open>
  \<^verbatim>\<open>SocketMessagePtr<void>\<close> is a
  \<^verbatim>\<open>std::unique_ptr<SocketMessage, details::SocketMessageDeleter>\<close> and adds no member:
  its state is the stored pointer. The operations below are those of \<^verbatim>\<open>std::unique_ptr\<close>
  as the C++ standard defines them: the destructor and \<^verbatim>\<open>reset\<close> call the deleter only on
  a stored pointer that is not null, \<^verbatim>\<open>release\<close> gives the pointer up without calling it,
  and a move leaves the source null.
\<close>

record SocketMessagePtr =
  ptr :: "msg_addr option"

definition SocketMessagePtr_default :: SocketMessagePtr where
  "SocketMessagePtr_default = \<lparr>ptr = None\<rparr>"

definition SocketMessagePtr_of :: "msg_addr option \<Rightarrow> SocketMessagePtr" where
  "SocketMessagePtr_of p = \<lparr>ptr = p\<rparr>"

definition unique_ptr_dtor :: "SocketMessagePtr \<Rightarrow> world \<Rightarrow> fault + world" where
  "unique_ptr_dtor u w =
     (case ptr u of None \<Rightarrow> Inr w | Some a \<Rightarrow> SocketMessageDeleter (Some a) w)"

definition unique_ptr_reset ::
  "SocketMessagePtr \<Rightarrow> msg_addr option \<Rightarrow> world \<Rightarrow> fault + (SocketMessagePtr \<times> world)" where
  "unique_ptr_reset u p w =
     (let old_p = ptr u; u' = u\<lparr>ptr := p\<rparr> in
      case old_p of
        None \<Rightarrow> Inr (u', w)
      | Some a \<Rightarrow>
          (case SocketMessageDeleter (Some a) w of
             Inl f \<Rightarrow> Inl f
           | Inr w' \<Rightarrow> Inr (u', w')))"

definition unique_ptr_release :: "SocketMessagePtr \<Rightarrow> msg_addr option \<times> SocketMessagePtr" where
  "unique_ptr_release u = (ptr u, u\<lparr>ptr := None\<rparr>)"

text \<open>Move construction: the new wrapper, and the source as the move leaves it.\<close>

definition unique_ptr_move :: "SocketMessagePtr \<Rightarrow> SocketMessagePtr \<times> SocketMessagePtr" where
  "unique_ptr_move u =
     (case unique_ptr_release u of (p, u') \<Rightarrow> (SocketMessagePtr_of p, u'))"

subsection \<open>The typed wrapper\<close>

text \<open>
  \<^verbatim>\<open>T*\<close> for a message class \<open>'T\<close>: the address, with the static type as a phantom.
  \<^verbatim>\<open>static_cast<T*>\<close> from \<^verbatim>\<open>SocketMessage*\<close> keeps the address and is not checked.
\<close>

datatype 'T pointer = Pointer (address: "msg_addr option")

definition static_cast :: "msg_addr option \<Rightarrow> 'T pointer" where
  "static_cast p = Pointer p"

text \<open>
  \<^verbatim>\<open>SocketMessagePtr<T>\<close> derives publicly from \<^verbatim>\<open>SocketMessagePtr<>\<close> and adds no
  member: it is its base subobject, typed.
\<close>

datatype 'T SocketMessagePtrT = Typed (base: SocketMessagePtr)

definition SocketMessagePtrT_default :: "'T SocketMessagePtrT" where
  "SocketMessagePtrT_default = Typed SocketMessagePtr_default"

definition SocketMessagePtrT_of :: "'T pointer \<Rightarrow> 'T SocketMessagePtrT" where
  "SocketMessagePtrT_of p = Typed (SocketMessagePtr_of (address p))"

text \<open>
  \<^verbatim>\<open>operator*\<close>, \<^verbatim>\<open>operator->\<close> and \<^verbatim>\<open>release\<close> of the typed wrapper: the base's result
  through \<^verbatim>\<open>static_cast\<close>. Dereferencing an empty wrapper is undefined behaviour.
\<close>

definition operator_star :: "'T SocketMessagePtrT \<Rightarrow> fault + 'T pointer" where
  "operator_star u =
     (case ptr (base u) of None \<Rightarrow> Inl NullDereference | Some a \<Rightarrow> Inr (static_cast (Some a)))"

definition operator_arrow :: "'T SocketMessagePtrT \<Rightarrow> 'T pointer" where
  "operator_arrow u = static_cast (ptr (base u))"

definition release :: "'T SocketMessagePtrT \<Rightarrow> 'T pointer \<times> 'T SocketMessagePtrT" where
  "release u =
     (case unique_ptr_release (base u) of (p, b') \<Rightarrow> (static_cast p, Typed b'))"

text \<open>
  The conversion to the type-erased wrapper: a \<^verbatim>\<open>SocketMessagePtr<>\<close> move-constructed from
  the base subobject of the typed one. The result and the typed wrapper it leaves behind.
\<close>

definition to_SocketMessagePtr :: "'T SocketMessagePtrT \<Rightarrow> SocketMessagePtr \<times> 'T SocketMessagePtrT" where
  "to_SocketMessagePtr u =
     (case unique_ptr_move (base u) of (e, b') \<Rightarrow> (e, Typed b'))"

subsection \<open>Counting calls, and examples\<close>

definition times_called :: "msg_addr \<Rightarrow> world \<Rightarrow> nat" where
  "times_called a w = count_list (map fst (calls w)) a"

definition label_message :: "IOBuf \<Rightarrow> Status \<Rightarrow> SocketMessage" where
  "label_message label st = plain_message (\<lambda>out sock. (st, out @ label))"

definition example_world :: world where
  "example_world =
     \<lparr>objects = [1 \<mapsto> label_message [65] (Status 0 []), 2 \<mapsto> label_message [66] (Status 5 ''failed'')],
      calls = []\<rparr>"

text \<open>Two concrete message classes, for the examples.\<close>

datatype msg_class_A = msg_class_A

datatype msg_class_B = msg_class_B

section \<open>Context switching (src/bthread/context.cpp)\<close>

subsection \<open>Byte-addressed memory\<close>

text \<open>
  Memory maps every address to a byte. A value of \<open>n\<close> bytes is stored little-endian, as
  all the targets of the file do. Addresses wrap around with the word arithmetic.
\<close>

type_synonym 'w memory = "'w word \<Rightarrow> 8 word"

primrec store_bytes :: "'w::len memory \<Rightarrow> 'w word \<Rightarrow> 8 word list \<Rightarrow> 'w memory" where
  "store_bytes m a [] = m"
| "store_bytes m a (b # bs) = store_bytes (m(a := b)) (a + 1) bs"

primrec load_bytes :: "'w::len memory \<Rightarrow> 'w word \<Rightarrow> nat \<Rightarrow> 8 word list" where
  "load_bytes m a 0 = []"
| "load_bytes m a (Suc n) = m a # load_bytes m (a + 1) n"

primrec le_bytes :: "nat \<Rightarrow> 'b::len word \<Rightarrow> 8 word list" where
  "le_bytes 0 v = []"
| "le_bytes (Suc n) v = ucast v # le_bytes n (drop_bit 8 v)"

primrec le_word :: "8 word list \<Rightarrow> 'b::len word" where
  "le_word [] = 0"
| "le_word (b # bs) = ucast b OR push_bit 8 (le_word bs)"

definition store :: "nat \<Rightarrow> 'w::len memory \<Rightarrow> 'w word \<Rightarrow> 'b::len word \<Rightarrow> 'w memory" where
  "store n m a v = store_bytes m a (le_bytes n v)"

definition load :: "nat \<Rightarrow> 'w::len memory \<Rightarrow> 'w word \<Rightarrow> 'b::len word" where
  "load n m a = le_word (load_bytes m a n)"

text \<open>
  \<open>separate a n b k\<close>: the \<open>n\<close> bytes at \<open>a\<close> and the \<open>k\<close> bytes at \<open>b\<close> do not overlap,
  also when a range wraps around the end of the address space.
\<close>

definition separate :: "'w::len word \<Rightarrow> nat \<Rightarrow> 'w word \<Rightarrow> nat \<Rightarrow> bool" where
  "separate a n b k = (n \<le> unat (b - a) \<and> k \<le> unat (a - b))"

text \<open>\<open>within a n x\<close>: the address \<open>x\<close> is one of the \<open>n\<close> bytes at \<open>a\<close>.\<close>

definition within :: "'w::len word \<Rightarrow> nat \<Rightarrow> 'w word \<Rightarrow> bool" where
  "within a n x = (unat (x - a) < n)"

text \<open>\<open>same_on a n m m'\<close>: the memories \<open>m\<close> and \<open>m'\<close> hold the same \<open>n\<close> bytes at \<open>a\<close>.\<close>

definition same_on :: "'w::len word \<Rightarrow> nat \<Rightarrow> 'w memory \<Rightarrow> 'w memory \<Rightarrow> bool" where
  "same_on a n m m' = (load_bytes m a n = load_bytes m' a n)"

subsection \<open>Machine state and instructions\<close>

text \<open>
  The program counter is an address, or an external symbol that the routine calls by name.
  The link-time address of a label of the file is given by a function from label names.
\<close>

datatype 'a target = Abs 'a | Extern string

type_synonym 'a labels = "string \<Rightarrow> 'a"

record ('r, 'a) core =
  reg :: "'r \<Rightarrow> 'a"
  mem :: "'a \<Rightarrow> 8 word"
  zf :: bool
  pc :: "'a target"

text \<open>
  x86: MXCSR with the mask of the bits that the processor implements (\<^verbatim>\<open>MXCSR_MASK\<close>, as
  \<^verbatim>\<open>fxsave\<close> reports it), the x87 control word, the XMM registers by number, and the base of
  the segment (FS on i386, GS on x86-64) through which the Windows variants reach the thread
  information block.
\<close>

record ('r, 'a) x86 = "('r, 'a) core" +
  mxcsr :: "32 word"
  mxcsr_mask :: "32 word"
  fpucw :: "16 word"
  xmm :: "nat \<Rightarrow> 128 word"
  seg_base :: "'a"

text \<open>ARM: the registers d0 to d31 by number, and the FP control register (FPSCR, FPCR).\<close>

record ('r, 'a) arm = "('r, 'a) core" +
  dreg :: "nat \<Rightarrow> 64 word"
  fpcr :: "32 word"

datatype reg64 = RAX | RBX | RCX | RDX | RSI | RDI | RBP | RSP
  | R8 | R9 | R10 | R11 | R12 | R13 | R14 | R15

datatype reg32 = EAX | EBX | ECX | EDX | ESI | EDI | EBP | ESP

datatype reg_arm32 = A1 | A2 | A3 | A4 | V1 | V2 | V3 | V4 | V5 | V6 | V7 | V8 | IP | SP | LR

datatype reg_arm64 = X0 | X1 | X2 | X3 | X4 | X5 | X6 | X7 | X8 | X9 | X10 | X11 | X12
  | X13 | X14 | X15 | X16 | X17 | X18 | X19 | X20 | X21 | X22 | X23 | X24 | X25 | X26
  | X27 | X28 | X29 | X30 | XSP

type_synonym x86_64 = "(reg64, 64 word) x86"
type_synonym i386 = "(reg32, 32 word) x86"
type_synonym arm32 = "(reg_arm32, 32 word) arm"
type_synonym arm64 = "(reg_arm64, 64 word) arm"

text \<open>A straight-line routine is the list of its instructions, run in order.\<close>

primrec seq :: "('s \<Rightarrow> 's) list \<Rightarrow> 's \<Rightarrow> 's" where
  "seq [] s = s"
| "seq (f # fs) s = seq fs (f s)"

text \<open>
  The x86 instructions, in AT\&T operand order (source first). \<open>n\<close> is the operand size in
  bytes, \<open>sp\<close> the stack pointer register. The arithmetic instructions set the zero
  flag; \<^verbatim>\<open>mov\<close>, \<^verbatim>\<open>lea\<close>, \<^verbatim>\<open>push\<close> and \<^verbatim>\<open>pop\<close> leave it.
\<close>

definition push :: "nat \<Rightarrow> 'r \<Rightarrow> 'r \<Rightarrow> ('r, 'w::len word, 'z) core_scheme \<Rightarrow> ('r, 'w word, 'z) core_scheme" where
  "push n sp r s =
     s\<lparr>reg := (reg s)(sp := reg s sp - of_nat n),
       mem := store n (mem s) (reg s sp - of_nat n) (reg s r)\<rparr>"

definition pop :: "nat \<Rightarrow> 'r \<Rightarrow> 'r \<Rightarrow> ('r, 'w::len word, 'z) core_scheme \<Rightarrow> ('r, 'w word, 'z) core_scheme" where
  "pop n sp r s =
     s\<lparr>reg := (reg s)(r := load n (mem s) (reg s sp), sp := reg s sp + of_nat n)\<rparr>"

definition lea :: "'w::len word \<Rightarrow> 'r \<Rightarrow> 'r \<Rightarrow> ('r, 'w word, 'z) core_scheme \<Rightarrow> ('r, 'w word, 'z) core_scheme" where
  "lea off b d s = s\<lparr>reg := (reg s)(d := reg s b + off)\<rparr>"

definition lea_index :: "'r \<Rightarrow> 'r \<Rightarrow> 'r \<Rightarrow> ('r, 'w::len word, 'z) core_scheme \<Rightarrow> ('r, 'w word, 'z) core_scheme" where
  "lea_index b i d s = s\<lparr>reg := (reg s)(d := reg s b + reg s i)\<rparr>"

definition mov :: "'r \<Rightarrow> 'r \<Rightarrow> ('r, 'a, 'z) core_scheme \<Rightarrow> ('r, 'a, 'z) core_scheme" where
  "mov src d s = s\<lparr>reg := (reg s)(d := reg s src)\<rparr>"

definition mov_imm :: "'a \<Rightarrow> 'r \<Rightarrow> ('r, 'a, 'z) core_scheme \<Rightarrow> ('r, 'a, 'z) core_scheme" where
  "mov_imm v d s = s\<lparr>reg := (reg s)(d := v)\<rparr>"

definition mov_store :: "nat \<Rightarrow> 'r \<Rightarrow> 'w::len word \<Rightarrow> 'r \<Rightarrow> ('r, 'w word, 'z) core_scheme \<Rightarrow> ('r, 'w word, 'z) core_scheme" where
  "mov_store n src off b s = s\<lparr>mem := store n (mem s) (reg s b + off) (reg s src)\<rparr>"

definition mov_load :: "nat \<Rightarrow> 'w::len word \<Rightarrow> 'r \<Rightarrow> 'r \<Rightarrow> ('r, 'w word, 'z) core_scheme \<Rightarrow> ('r, 'w word, 'z) core_scheme" where
  "mov_load n off b d s = s\<lparr>reg := (reg s)(d := load n (mem s) (reg s b + off))\<rparr>"

definition mov_seg :: "nat \<Rightarrow> 'w::len word \<Rightarrow> 'r \<Rightarrow> ('r, 'w word, 'z) x86_scheme \<Rightarrow> ('r, 'w word, 'z) x86_scheme" where
  "mov_seg n off d s = s\<lparr>reg := (reg s)(d := load n (mem s) (seg_base s + off))\<rparr>"

definition xchg :: "'r \<Rightarrow> 'r \<Rightarrow> ('r, 'a, 'z) core_scheme \<Rightarrow> ('r, 'a, 'z) core_scheme" where
  "xchg r1 r2 s = s\<lparr>reg := (reg s)(r1 := reg s r2, r2 := reg s r1)\<rparr>"

definition and_imm :: "'w::len word \<Rightarrow> 'r \<Rightarrow> ('r, 'w word, 'z) core_scheme \<Rightarrow> ('r, 'w word, 'z) core_scheme" where
  "and_imm i d s = s\<lparr>reg := (reg s)(d := reg s d AND i), zf := (reg s d AND i = 0)\<rparr>"

definition and_reg :: "'r \<Rightarrow> 'r \<Rightarrow> ('r, 'w::len word, 'z) core_scheme \<Rightarrow> ('r, 'w word, 'z) core_scheme" where
  "and_reg src d s = s\<lparr>reg := (reg s)(d := reg s d AND reg s src), zf := (reg s d AND reg s src = 0)\<rparr>"

definition xor_reg :: "'r \<Rightarrow> 'r \<Rightarrow> ('r, 'w::len word, 'z) core_scheme \<Rightarrow> ('r, 'w word, 'z) core_scheme" where
  "xor_reg src d s = s\<lparr>reg := (reg s)(d := reg s d XOR reg s src), zf := (reg s d XOR reg s src = 0)\<rparr>"

definition add_imm :: "'w::len word \<Rightarrow> 'r \<Rightarrow> ('r, 'w word, 'z) core_scheme \<Rightarrow> ('r, 'w word, 'z) core_scheme" where
  "add_imm i d s = s\<lparr>reg := (reg s)(d := reg s d + i), zf := (reg s d + i = 0)\<rparr>"

definition sub_imm :: "'w::len word \<Rightarrow> 'r \<Rightarrow> ('r, 'w word, 'z) core_scheme \<Rightarrow> ('r, 'w word, 'z) core_scheme" where
  "sub_imm i d s = s\<lparr>reg := (reg s)(d := reg s d - i), zf := (reg s d - i = 0)\<rparr>"

definition neg_reg :: "'r \<Rightarrow> ('r, 'w::len word, 'z) core_scheme \<Rightarrow> ('r, 'w word, 'z) core_scheme" where
  "neg_reg d s = s\<lparr>reg := (reg s)(d := - reg s d), zf := (- reg s d = 0)\<rparr>"

definition inc :: "'r \<Rightarrow> ('r, 'w::len word, 'z) core_scheme \<Rightarrow> ('r, 'w word, 'z) core_scheme" where
  "inc d s = s\<lparr>reg := (reg s)(d := reg s d + 1), zf := (reg s d + 1 = 0)\<rparr>"

definition dec :: "'r \<Rightarrow> ('r, 'w::len word, 'z) core_scheme \<Rightarrow> ('r, 'w word, 'z) core_scheme" where
  "dec d s = s\<lparr>reg := (reg s)(d := reg s d - 1), zf := (reg s d - 1 = 0)\<rparr>"

definition cmp_imm :: "'w::len word \<Rightarrow> 'r \<Rightarrow> ('r, 'w word, 'z) core_scheme \<Rightarrow> ('r, 'w word, 'z) core_scheme" where
  "cmp_imm i r s = s\<lparr>zf := (reg s r - i = 0)\<rparr>"

definition test :: "'r \<Rightarrow> 'r \<Rightarrow> ('r, 'w::len word, 'z) core_scheme \<Rightarrow> ('r, 'w word, 'z) core_scheme" where
  "test r1 r2 s = s\<lparr>zf := (reg s r2 AND reg s r1 = 0)\<rparr>"

text \<open>\<^verbatim>\<open>je label\<close> over the instructions up to the label: they are skipped when ZF is set.\<close>

definition je_over :: "(('r, 'a, 'z) core_scheme \<Rightarrow> ('r, 'a, 'z) core_scheme) list \<Rightarrow> ('r, 'a, 'z) core_scheme \<Rightarrow> ('r, 'a, 'z) core_scheme" where
  "je_over body s = (if zf s then s else seq body s)"

definition jmp_reg :: "'r \<Rightarrow> ('r, 'a, 'z) core_scheme \<Rightarrow> ('r, 'a, 'z) core_scheme" where
  "jmp_reg r s = s\<lparr>pc := Abs (reg s r)\<rparr>"

definition ret :: "nat \<Rightarrow> 'r \<Rightarrow> ('r, 'w::len word, 'z) core_scheme \<Rightarrow> ('r, 'w word, 'z) core_scheme" where
  "ret n sp s =
     s\<lparr>reg := (reg s)(sp := reg s sp + of_nat n), pc := Abs (load n (mem s) (reg s sp))\<rparr>"

text \<open>\<^verbatim>\<open>call\<close> pushes the address \<open>next\<close> of the instruction after it.\<close>

definition call :: "nat \<Rightarrow> 'r \<Rightarrow> 'w word target \<Rightarrow> 'w word \<Rightarrow> ('r, 'w::len word, 'z) core_scheme \<Rightarrow> ('r, 'w word, 'z) core_scheme" where
  "call n sp tgt next s =
     s\<lparr>reg := (reg s)(sp := reg s sp - of_nat n),
       mem := store n (mem s) (reg s sp - of_nat n) next,
       pc := tgt\<rparr>"

definition stmxcsr :: "'w::len word \<Rightarrow> 'r \<Rightarrow> ('r, 'w word, 'z) x86_scheme \<Rightarrow> ('r, 'w word, 'z) x86_scheme" where
  "stmxcsr off b s = s\<lparr>mem := store 4 (mem s) (reg s b + off) (mxcsr s)\<rparr>"

definition fnstcw :: "'w::len word \<Rightarrow> 'r \<Rightarrow> ('r, 'w word, 'z) x86_scheme \<Rightarrow> ('r, 'w word, 'z) x86_scheme" where
  "fnstcw off b s = s\<lparr>mem := store 2 (mem s) (reg s b + off) (fpucw s)\<rparr>"

text \<open>
  \<^verbatim>\<open>ldmxcsr\<close> raises a general-protection fault, \<open>None\<close>, when the word it loads has a bit set
  outside the mask. \<open>load_mxcsr\<close> is its register transfer alone.
\<close>

definition mxcsr_accepts :: "('r, 'a, 'z) x86_scheme \<Rightarrow> 32 word \<Rightarrow> bool" where
  "mxcsr_accepts s v = (v AND NOT (mxcsr_mask s) = 0)"

definition load_mxcsr :: "'w::len word \<Rightarrow> 'r \<Rightarrow> ('r, 'w word, 'z) x86_scheme \<Rightarrow> ('r, 'w word, 'z) x86_scheme" where
  "load_mxcsr off b s = s\<lparr>mxcsr := load 4 (mem s) (reg s b + off)\<rparr>"

definition ldmxcsr :: "'w::len word \<Rightarrow> 'r \<Rightarrow> ('r, 'w word, 'z) x86_scheme \<Rightarrow> ('r, 'w word, 'z) x86_scheme option" where
  "ldmxcsr off b s =
     (if mxcsr_accepts s (load 4 (mem s) (reg s b + off)) then Some (load_mxcsr off b s) else None)"

text \<open>
  \<^verbatim>\<open>fldcw\<close> does not fault on a reserved bit: of the word it loads the control register keeps
  the exception masks, the precision and rounding fields and the infinity bit; bit 6 reads
  as one and bits 7 and 13 to 15 as zero.
\<close>

definition x87_control :: "16 word \<Rightarrow> 16 word" where
  "x87_control v = (v AND 0x1f3f) OR 0x40"

definition fldcw :: "'w::len word \<Rightarrow> 'r \<Rightarrow> ('r, 'w word, 'z) x86_scheme \<Rightarrow> ('r, 'w word, 'z) x86_scheme" where
  "fldcw off b s = s\<lparr>fpucw := x87_control (load 2 (mem s) (reg s b + off))\<rparr>"



primrec seq_option :: "('s \<Rightarrow> 's option) list \<Rightarrow> 's \<Rightarrow> 's option" where
  "seq_option [] s = Some s"
| "seq_option (f # fs) s = (case f s of None \<Rightarrow> None | Some s' \<Rightarrow> seq_option fs s')"

definition ok :: "('s \<Rightarrow> 's) \<Rightarrow> 's \<Rightarrow> 's option" where
  "ok f s = Some (f s)"

definition je_over_option :: "(('r, 'a, 'z) core_scheme \<Rightarrow> ('r, 'a, 'z) core_scheme option) list \<Rightarrow> ('r, 'a, 'z) core_scheme \<Rightarrow> ('r, 'a, 'z) core_scheme option" where
  "je_over_option body s = (if zf s then Some s else seq_option body s)"



text \<open>
  The ARM instructions, destination first as the source writes them. Only \<^verbatim>\<open>cmp\<close> sets
  the flags. \<open>stm_db\<close> is \<^verbatim>\<open>push {...}\<close> and \<open>ldm_ia\<close> is \<^verbatim>\<open>pop {...}\<close>: the lowest register
  at the lowest address.
\<close>

definition arm_mov :: "'r \<Rightarrow> 'r \<Rightarrow> ('r, 'a, 'z) core_scheme \<Rightarrow> ('r, 'a, 'z) core_scheme" where
  "arm_mov d src s = s\<lparr>reg := (reg s)(d := reg s src)\<rparr>"

definition arm_mov_imm :: "'r \<Rightarrow> 'a \<Rightarrow> ('r, 'a, 'z) core_scheme \<Rightarrow> ('r, 'a, 'z) core_scheme" where
  "arm_mov_imm d v s = s\<lparr>reg := (reg s)(d := v)\<rparr>"

definition arm_add :: "'r \<Rightarrow> 'r \<Rightarrow> 'w::len word \<Rightarrow> ('r, 'w word, 'z) core_scheme \<Rightarrow> ('r, 'w word, 'z) core_scheme" where
  "arm_add d src i s = s\<lparr>reg := (reg s)(d := reg s src + i)\<rparr>"

definition arm_sub :: "'r \<Rightarrow> 'r \<Rightarrow> 'w::len word \<Rightarrow> ('r, 'w word, 'z) core_scheme \<Rightarrow> ('r, 'w word, 'z) core_scheme" where
  "arm_sub d src i s = s\<lparr>reg := (reg s)(d := reg s src - i)\<rparr>"

definition arm_and :: "'r \<Rightarrow> 'r \<Rightarrow> 'w::len word \<Rightarrow> ('r, 'w word, 'z) core_scheme \<Rightarrow> ('r, 'w word, 'z) core_scheme" where
  "arm_and d src i s = s\<lparr>reg := (reg s)(d := reg s src AND i)\<rparr>"

definition arm_bic :: "'r \<Rightarrow> 'r \<Rightarrow> 'w::len word \<Rightarrow> ('r, 'w word, 'z) core_scheme \<Rightarrow> ('r, 'w word, 'z) core_scheme" where
  "arm_bic d src i s = s\<lparr>reg := (reg s)(d := reg s src AND NOT i)\<rparr>"

definition arm_cmp :: "'r \<Rightarrow> 'w::len word \<Rightarrow> ('r, 'w word, 'z) core_scheme \<Rightarrow> ('r, 'w word, 'z) core_scheme" where
  "arm_cmp r i s = s\<lparr>zf := (reg s r - i = 0)\<rparr>"

definition beq_over :: "(('r, 'a, 'z) core_scheme \<Rightarrow> ('r, 'a, 'z) core_scheme) list \<Rightarrow> ('r, 'a, 'z) core_scheme \<Rightarrow> ('r, 'a, 'z) core_scheme" where
  "beq_over body s = (if zf s then s else seq body s)"

definition arm_str :: "nat \<Rightarrow> 'r \<Rightarrow> 'r \<Rightarrow> 'w::len word \<Rightarrow> ('r, 'w word, 'z) core_scheme \<Rightarrow> ('r, 'w word, 'z) core_scheme" where
  "arm_str n r b off s = s\<lparr>mem := store n (mem s) (reg s b + off) (reg s r)\<rparr>"

definition arm_ldr :: "nat \<Rightarrow> 'r \<Rightarrow> 'r \<Rightarrow> 'w::len word \<Rightarrow> ('r, 'w word, 'z) core_scheme \<Rightarrow> ('r, 'w word, 'z) core_scheme" where
  "arm_ldr n r b off s = s\<lparr>reg := (reg s)(r := load n (mem s) (reg s b + off))\<rparr>"

fun store_regs :: "nat \<Rightarrow> ('r \<Rightarrow> 'w::len word) \<Rightarrow> 'w memory \<Rightarrow> 'w word \<Rightarrow> 'r list \<Rightarrow> 'w memory" where
  "store_regs n f m a [] = m"
| "store_regs n f m a (r # rs) = store_regs n f (store n m a (f r)) (a + of_nat n) rs"

fun load_regs :: "nat \<Rightarrow> 'w::len memory \<Rightarrow> 'w word \<Rightarrow> 'r list \<Rightarrow> ('r \<Rightarrow> 'w word) \<Rightarrow> ('r \<Rightarrow> 'w word)" where
  "load_regs n m a [] f = f"
| "load_regs n m a (r # rs) f = load_regs n m (a + of_nat n) rs (f(r := load n m a))"

definition stm_db :: "nat \<Rightarrow> 'r \<Rightarrow> 'r list \<Rightarrow> ('r, 'w::len word, 'z) core_scheme \<Rightarrow> ('r, 'w word, 'z) core_scheme" where
  "stm_db n sp rs s =
     s\<lparr>reg := (reg s)(sp := reg s sp - of_nat (n * length rs)),
       mem := store_regs n (reg s) (mem s) (reg s sp - of_nat (n * length rs)) rs\<rparr>"

definition ldm_ia :: "nat \<Rightarrow> 'r \<Rightarrow> 'r list \<Rightarrow> ('r, 'w::len word, 'z) core_scheme \<Rightarrow> ('r, 'w word, 'z) core_scheme" where
  "ldm_ia n sp rs s =
     s\<lparr>reg := (load_regs n (mem s) (reg s sp) rs (reg s))(sp := reg s sp + of_nat (n * length rs))\<rparr>"

text \<open>\<^verbatim>\<open>pop {pc}\<close>: the word on the stack becomes the program counter.\<close>

definition pop_pc :: "nat \<Rightarrow> 'r \<Rightarrow> ('r, 'w::len word, 'z) core_scheme \<Rightarrow> ('r, 'w word, 'z) core_scheme" where
  "pop_pc n sp s =
     s\<lparr>reg := (reg s)(sp := reg s sp + of_nat n), pc := Abs (load n (mem s) (reg s sp))\<rparr>"

text \<open>\<^verbatim>\<open>bx lr\<close>, \<^verbatim>\<open>ret x30\<close>, \<^verbatim>\<open>ret x4\<close>: branch to the address in a register.\<close>

definition branch_reg :: "'r \<Rightarrow> ('r, 'a, 'z) core_scheme \<Rightarrow> ('r, 'a, 'z) core_scheme" where
  "branch_reg r s = s\<lparr>pc := Abs (reg s r)\<rparr>"

text \<open>\<^verbatim>\<open>bl\<close> leaves the address \<open>next\<close> of the instruction after it in the link register.\<close>

definition bl :: "'r \<Rightarrow> 'a target \<Rightarrow> 'a \<Rightarrow> ('r, 'a, 'z) core_scheme \<Rightarrow> ('r, 'a, 'z) core_scheme" where
  "bl lr tgt next s = s\<lparr>reg := (reg s)(lr := next), pc := tgt\<rparr>"

text \<open>\<^verbatim>\<open>vstmia\<close>, \<^verbatim>\<open>vldmia\<close> (no write-back) and \<^verbatim>\<open>stp\<close>, \<^verbatim>\<open>ldp\<close> on D registers.\<close>

fun store_dregs :: "(nat \<Rightarrow> 64 word) \<Rightarrow> 'w::len memory \<Rightarrow> 'w word \<Rightarrow> nat list \<Rightarrow> 'w memory" where
  "store_dregs f m a [] = m"
| "store_dregs f m a (i # is) = store_dregs f (store 8 m a (f i)) (a + 8) is"

fun load_dregs :: "'w::len memory \<Rightarrow> 'w word \<Rightarrow> nat list \<Rightarrow> (nat \<Rightarrow> 64 word) \<Rightarrow> (nat \<Rightarrow> 64 word)" where
  "load_dregs m a [] f = f"
| "load_dregs m a (i # is) f = load_dregs m (a + 8) is (f(i := load 8 m a))"

definition vstmia :: "'r \<Rightarrow> nat list \<Rightarrow> ('r, 'w::len word, 'z) arm_scheme \<Rightarrow> ('r, 'w word, 'z) arm_scheme" where
  "vstmia b ds s = s\<lparr>mem := store_dregs (dreg s) (mem s) (reg s b) ds\<rparr>"

definition vldmia :: "'r \<Rightarrow> nat list \<Rightarrow> ('r, 'w::len word, 'z) arm_scheme \<Rightarrow> ('r, 'w word, 'z) arm_scheme" where
  "vldmia b ds s = s\<lparr>dreg := load_dregs (mem s) (reg s b) ds (dreg s)\<rparr>"

definition stp_d :: "nat \<Rightarrow> nat \<Rightarrow> 'r \<Rightarrow> 'w::len word \<Rightarrow> ('r, 'w word, 'z) arm_scheme \<Rightarrow> ('r, 'w word, 'z) arm_scheme" where
  "stp_d d1 d2 b off s = s\<lparr>mem := store_dregs (dreg s) (mem s) (reg s b + off) [d1, d2]\<rparr>"

definition ldp_d :: "nat \<Rightarrow> nat \<Rightarrow> 'r \<Rightarrow> 'w::len word \<Rightarrow> ('r, 'w word, 'z) arm_scheme \<Rightarrow> ('r, 'w word, 'z) arm_scheme" where
  "ldp_d d1 d2 b off s = s\<lparr>dreg := load_dregs (mem s) (reg s b + off) [d1, d2] (dreg s)\<rparr>"

definition stp :: "'r \<Rightarrow> 'r \<Rightarrow> 'r \<Rightarrow> 'w::len word \<Rightarrow> ('r, 'w word, 'z) core_scheme \<Rightarrow> ('r, 'w word, 'z) core_scheme" where
  "stp r1 r2 b off s = s\<lparr>mem := store_regs 8 (reg s) (mem s) (reg s b + off) [r1, r2]\<rparr>"

definition ldp :: "'r \<Rightarrow> 'r \<Rightarrow> 'r \<Rightarrow> 'w::len word \<Rightarrow> ('r, 'w word, 'z) core_scheme \<Rightarrow> ('r, 'w word, 'z) core_scheme" where
  "ldp r1 r2 b off s = s\<lparr>reg := load_regs 8 (mem s) (reg s b + off) [r1, r2] (reg s)\<rparr>"

subsection \<open>windows\_i386\<close>


text \<open>
  The loop at \<^verbatim>\<open>walk\<close> follows the chain of exception records from \<^verbatim>\<open>%fs:0\<close> to the
  record whose link is \<^verbatim>\<open>0xffffffff\<close>. On a chain with no such record it does not end.
\<close>

partial_function (option) walk :: "i386 \<Rightarrow> i386 option" where
  "walk s =
     (let s1 = seq [mov_load 4 0 ECX EDX, inc EDX] s in
      if zf s1 then Some s1
      else walk (seq [dec EDX, xchg EDX ECX] s1))"

definition bthread_make_fcontext_windows_i386 :: "32 word labels \<Rightarrow> i386 \<Rightarrow> i386 option" where
  "bthread_make_fcontext_windows_i386 L = seq_option
    [ok (mov_load 4 0x4 ESP EAX),
     ok (lea (- 0x8) EAX EAX),
     ok (and_imm 0xfffffff0 EAX),
     ok (lea (- 0x3c) EAX EAX),
     ok (mov_load 4 0x4 ESP ECX),
     ok (mov_store 4 ECX 0x14 EAX),
     ok (mov_load 4 0x8 ESP EDX),
     ok (neg_reg EDX),
     ok (lea_index ECX EDX ECX),
     ok (mov_store 4 ECX 0x10 EAX),
     ok (mov_store 4 ECX 0xc EAX),
     ok (mov_load 4 0xc ESP ECX),
     ok (mov_store 4 ECX 0x2c EAX),
     ok (stmxcsr 0 EAX),
     ok (fnstcw 0x4 EAX),
     ok (mov_imm (L ''finish'') ECX),
     ok (mov_store 4 ECX 0x30 EAX),
     ok (mov_seg 4 0 ECX),
     walk,
     ok (mov_load 4 0x4 ECX ECX),
     ok (mov_store 4 ECX 0x3c EAX),
     ok (mov_imm 0xffffffff ECX),
     ok (mov_store 4 ECX 0x38 EAX),
     ok (lea 0x38 EAX ECX),
     ok (mov_store 4 ECX 0x18 EAX),
     ok (ret 4 ESP)]"

definition finish_windows_i386 :: "32 word labels \<Rightarrow> i386 \<Rightarrow> i386" where
  "finish_windows_i386 L = seq
    [xor_reg EAX EAX,
     mov_store 4 EAX 0 ESP,
     call 4 ESP (Extern ''_exit'') (L ''finish.hlt'')]"

subsection \<open>windows\_x86\_64\<close>


definition bthread_make_fcontext_windows_x86_64 :: "64 word labels \<Rightarrow> x86_64 \<Rightarrow> x86_64" where
  "bthread_make_fcontext_windows_x86_64 L = seq
    [mov RCX RAX,
     sub_imm 0x28 RAX,
     and_imm 0xfffffffffffffff0 RAX,
     sub_imm 0x128 RAX,
     mov_store 8 R8 0x118 RAX,
     mov_store 8 RCX 0xd0 RAX,
     neg_reg RDX,
     lea_index RCX RDX RCX,
     mov_store 8 RCX 0xc8 RAX,
     mov_store 8 RCX 0xc0 RAX,
     stmxcsr 0xa8 RAX,
     fnstcw 0xac RAX,
     mov_imm (L ''finish'') RCX,
     mov_store 8 RCX 0x120 RAX,
     mov_imm 0x1 RCX,
     mov_store 8 RCX 0 RAX,
     ret 8 RSP]"

definition finish_windows_x86_64 :: "64 word labels \<Rightarrow> x86_64 \<Rightarrow> x86_64" where
  "finish_windows_x86_64 L = seq
    [xor_reg RCX RCX,
     call 8 RSP (Abs 0x63) (L ''finish.hlt'')]"

subsection \<open>linux\_i386\<close>


definition bthread_make_fcontext_linux_i386 :: "32 word labels \<Rightarrow> i386 \<Rightarrow> i386" where
  "bthread_make_fcontext_linux_i386 L = seq
    [mov_load 4 0x4 ESP EAX,
     lea (- 0x8) EAX EAX,
     and_imm (- 16) EAX,
     lea (- 0x20) EAX EAX,
     mov_load 4 0xc ESP EDX,
     mov_store 4 EDX 0x18 EAX,
     stmxcsr 0 EAX,
     fnstcw 0x4 EAX,
     call 4 ESP (Abs (L ''make.1'')) (L ''make.1''),
     pop 4 ESP ECX,
     add_imm (L ''finish'' - L ''make.1'') ECX,
     mov_store 4 ECX 0x1c EAX,
     ret 4 ESP]"

definition finish_linux_i386 :: "32 word labels \<Rightarrow> i386 \<Rightarrow> i386" where
  "finish_linux_i386 L = seq
    [call 4 ESP (Abs (L ''finish.2'')) (L ''finish.2''),
     pop 4 ESP EBX,
     add_imm (L ''_GLOBAL_OFFSET_TABLE_'' - L ''finish.2'') EBX,
     xor_reg EAX EAX,
     mov_store 4 EAX 0 ESP,
     call 4 ESP (Extern ''_exit@PLT'') (L ''finish.hlt'')]"

subsection \<open>linux\_x86\_64\<close>

definition bthread_jump_fcontext_linux_x86_64 :: "x86_64 \<Rightarrow> x86_64 option" where
  "bthread_jump_fcontext_linux_x86_64 = seq_option
    [ok (push 8 RSP RBP),
     ok (push 8 RSP RBX),
     ok (push 8 RSP R15),
     ok (push 8 RSP R14),
     ok (push 8 RSP R13),
     ok (push 8 RSP R12),
     ok (lea (- 0x8) RSP RSP),
     ok (cmp_imm 0 RCX),
     ok (je_over [stmxcsr 0 RSP, fnstcw 0x4 RSP]),
     ok (mov_store 8 RSP 0 RDI),
     ok (mov RSI RSP),
     ok (cmp_imm 0 RCX),
     je_over_option
       [ldmxcsr 0 RSP,
        ok (fldcw 0x4 RSP)],
     ok (lea 0x8 RSP RSP),
     ok (pop 8 RSP R12),
     ok (pop 8 RSP R13),
     ok (pop 8 RSP R14),
     ok (pop 8 RSP R15),
     ok (pop 8 RSP RBX),
     ok (pop 8 RSP RBP),
     ok (pop 8 RSP R8),
     ok (mov RDX RAX),
     ok (mov RDX RDI),
     ok (jmp_reg R8)]"

definition bthread_make_fcontext_linux_x86_64 :: "64 word labels \<Rightarrow> x86_64 \<Rightarrow> x86_64" where
  "bthread_make_fcontext_linux_x86_64 L = seq
    [mov RDI RAX,
     and_imm (- 16) RAX,
     lea (- 0x48) RAX RAX,
     mov_store 8 RDX 0x38 RAX,
     stmxcsr 0 RAX,
     fnstcw 0x4 RAX,
     mov_imm (L ''finish'') RCX,
     mov_store 8 RCX 0x40 RAX,
     ret 8 RSP]"

definition finish_linux_x86_64 :: "64 word labels \<Rightarrow> x86_64 \<Rightarrow> x86_64" where
  "finish_linux_x86_64 L = seq
    [xor_reg RDI RDI,
     call 8 RSP (Extern ''_exit@PLT'') (L ''finish.hlt'')]"

subsection \<open>apple\_x86\_64\<close>


definition bthread_make_fcontext_apple_x86_64 :: "64 word labels \<Rightarrow> x86_64 \<Rightarrow> x86_64" where
  "bthread_make_fcontext_apple_x86_64 L = seq
    [mov RDI RAX,
     mov_imm (- 16) R8,
     and_reg R8 RAX,
     lea (- 0x48) RAX RAX,
     mov_store 8 RDX 0x38 RAX,
     stmxcsr 0 RAX,
     fnstcw 0x4 RAX,
     mov_imm (L ''finish'') RCX,
     mov_store 8 RCX 0x40 RAX,
     ret 8 RSP]"

definition finish_apple_x86_64 :: "64 word labels \<Rightarrow> x86_64 \<Rightarrow> x86_64" where
  "finish_apple_x86_64 L = seq
    [xor_reg RDI RDI,
     call 8 RSP (Extern ''__exit'') (L ''finish.hlt'')]"

subsection \<open>apple\_i386\<close>


definition bthread_make_fcontext_apple_i386 :: "32 word labels \<Rightarrow> i386 \<Rightarrow> i386" where
  "bthread_make_fcontext_apple_i386 L = seq
    [mov_load 4 0x4 ESP EAX,
     lea (- 0x8) EAX EAX,
     and_imm (- 16) EAX,
     lea (- 0x20) EAX EAX,
     mov_load 4 0xc ESP EDX,
     mov_store 4 EDX 0x18 EAX,
     stmxcsr 0 EAX,
     fnstcw 0x4 EAX,
     call 4 ESP (Abs (L ''make.1'')) (L ''make.1''),
     pop 4 ESP ECX,
     add_imm (L ''finish'' - L ''make.1'') ECX,
     mov_store 4 ECX 0x1c EAX,
     ret 4 ESP]"

definition finish_apple_i386 :: "32 word labels \<Rightarrow> i386 \<Rightarrow> i386" where
  "finish_apple_i386 L = seq
    [xor_reg EAX EAX,
     mov_store 4 EAX 0 ESP,
     call 4 ESP (Extern ''__exit'') (L ''finish.hlt'')]"

subsection \<open>linux\_arm32\<close>


definition bthread_make_fcontext_linux_arm32 :: "32 word labels \<Rightarrow> arm32 \<Rightarrow> arm32" where
  "bthread_make_fcontext_linux_arm32 L = seq
    [arm_bic A1 A1 15,
     arm_sub A1 A1 104,
     arm_str 4 A3 A1 100,
     arm_mov_imm A2 (L ''finish''),
     arm_str 4 A2 A1 96,
     branch_reg LR]"

definition finish_linux_arm32 :: "32 word labels \<Rightarrow> arm32 \<Rightarrow> arm32" where
  "finish_linux_arm32 L = seq
    [arm_mov_imm A1 0,
     bl LR (Extern ''_exit@PLT'') (L ''finish.end'')]"

subsection \<open>linux\_arm64\<close>


definition bthread_make_fcontext_linux_arm64 :: "64 word labels \<Rightarrow> arm64 \<Rightarrow> arm64" where
  "bthread_make_fcontext_linux_arm64 L = seq
    [arm_and X0 X0 (NOT 0xF),
     arm_sub X0 X0 0xb0,
     arm_str 8 X2 X0 0xa0,
     arm_mov_imm X1 (L ''finish''),
     arm_str 8 X1 X0 0x98,
     branch_reg X30]"

definition finish_linux_arm64 :: "64 word labels \<Rightarrow> arm64 \<Rightarrow> arm64" where
  "finish_linux_arm64 L = seq
    [arm_mov_imm X0 0,
     bl X30 (Extern ''_exit'') (L ''finish.end'')]"

subsection \<open>The two halves of a switch\<close>

text \<open>
  The instructions of \<^verbatim>\<open>bthread_jump_fcontext\<close> up to the store of the stack pointer (the
  outgoing side), and from the load of the new stack pointer on (the incoming side). The
  two lists are the instructions without their faults (the incoming side of x86 has the
  register transfer of \<^verbatim>\<open>ldmxcsr\<close>, the ARM lists have the accesses without the alignment
  check): they give the state in which the routine ends when no instruction faults,
  \<open>completed\<close>.
\<close>

definition jump_linux_x86_64_outgoing :: "(x86_64 \<Rightarrow> x86_64) list" where
  "jump_linux_x86_64_outgoing =
    [push 8 RSP RBP, push 8 RSP RBX, push 8 RSP R15, push 8 RSP R14, push 8 RSP R13,
     push 8 RSP R12, lea (- 0x8) RSP RSP, cmp_imm 0 RCX,
     je_over [stmxcsr 0 RSP, fnstcw 0x4 RSP],
     mov_store 8 RSP 0 RDI]"

definition jump_linux_x86_64_incoming :: "(x86_64 \<Rightarrow> x86_64) list" where
  "jump_linux_x86_64_incoming =
    [mov RSI RSP, cmp_imm 0 RCX,
     je_over [load_mxcsr 0 RSP, fldcw 0x4 RSP],
     lea 0x8 RSP RSP, pop 8 RSP R12, pop 8 RSP R13, pop 8 RSP R14, pop 8 RSP R15,
     pop 8 RSP RBX, pop 8 RSP RBP, pop 8 RSP R8, mov RDX RAX, mov RDX RDI, jmp_reg R8]"

definition jump_linux_x86_64_completed :: "x86_64 \<Rightarrow> x86_64" where
  "jump_linux_x86_64_completed s =
     seq jump_linux_x86_64_incoming (seq jump_linux_x86_64_outgoing s)"

definition jump_linux_arm64_outgoing :: "(arm64 \<Rightarrow> arm64) list" where
  "jump_linux_arm64_outgoing =
    [arm_sub XSP XSP 0xb0,
     stp_d 8 9 XSP 0x00, stp_d 10 11 XSP 0x10, stp_d 12 13 XSP 0x20, stp_d 14 15 XSP 0x30,
     stp X19 X20 XSP 0x40, stp X21 X22 XSP 0x50, stp X23 X24 XSP 0x60,
     stp X25 X26 XSP 0x70, stp X27 X28 XSP 0x80, stp X29 X30 XSP 0x90,
     arm_str 8 X30 XSP 0xa0, arm_mov X4 XSP, arm_str 8 X4 X0 0]"

definition jump_linux_arm64_incoming :: "(arm64 \<Rightarrow> arm64) list" where
  "jump_linux_arm64_incoming =
    [arm_mov XSP X1,
     ldp_d 8 9 XSP 0x00, ldp_d 10 11 XSP 0x10, ldp_d 12 13 XSP 0x20, ldp_d 14 15 XSP 0x30,
     ldp X19 X20 XSP 0x40, ldp X21 X22 XSP 0x50, ldp X23 X24 XSP 0x60,
     ldp X25 X26 XSP 0x70, ldp X27 X28 XSP 0x80, ldp X29 X30 XSP 0x90,
     arm_mov X0 X2, arm_ldr 8 X4 XSP 0xa0, arm_add XSP XSP 0xb0, branch_reg X4]"

definition jump_linux_arm64_completed :: "arm64 \<Rightarrow> arm64" where
  "jump_linux_arm64_completed s =
     seq jump_linux_arm64_incoming (seq jump_linux_arm64_outgoing s)"

definition jump_linux_i386_outgoing :: "(i386 \<Rightarrow> i386) list" where
  "jump_linux_i386_outgoing =
    [mov_load 4 0x10 ESP ECX, push 4 ESP EBP, push 4 ESP EBX, push 4 ESP ESI, push 4 ESP EDI,
     lea (- 0x8) ESP ESP, test ECX ECX,
     je_over [stmxcsr 0 ESP, fnstcw 0x4 ESP],
     mov_load 4 0x1c ESP EAX, mov_store 4 ESP 0 EAX]"

definition jump_linux_i386_incoming :: "(i386 \<Rightarrow> i386) list" where
  "jump_linux_i386_incoming =
    [mov_load 4 0x20 ESP EDX, mov_load 4 0x24 ESP EAX, mov EDX ESP, test ECX ECX,
     je_over [load_mxcsr 0 ESP, fldcw 0x4 ESP],
     lea 0x8 ESP ESP, pop 4 ESP EDI, pop 4 ESP ESI, pop 4 ESP EBX, pop 4 ESP EBP,
     pop 4 ESP EDX, mov_store 4 EAX 0x4 ESP, jmp_reg EDX]"

definition jump_linux_i386_completed :: "i386 \<Rightarrow> i386" where
  "jump_linux_i386_completed s =
     seq jump_linux_i386_incoming (seq jump_linux_i386_outgoing s)"

definition jump_linux_arm32_outgoing :: "(arm32 \<Rightarrow> arm32) list" where
  "jump_linux_arm32_outgoing =
    [stm_db 4 SP [LR], stm_db 4 SP [V1, V2, V3, V4, V5, V6, V7, V8, LR], arm_sub SP SP 64,
     arm_cmp A4 0,
     beq_over [vstmia SP [8, 9, 10, 11, 12, 13, 14, 15]],
     arm_str 4 SP A1 0]"

definition jump_linux_arm32_incoming :: "(arm32 \<Rightarrow> arm32) list" where
  "jump_linux_arm32_incoming =
    [arm_mov SP A2, arm_cmp A4 0,
     beq_over [vldmia SP [8, 9, 10, 11, 12, 13, 14, 15]],
     arm_add SP SP 64, arm_mov A1 A3,
     ldm_ia 4 SP [V1, V2, V3, V4, V5, V6, V7, V8, LR], pop_pc 4 SP]"

definition jump_linux_arm32_completed :: "arm32 \<Rightarrow> arm32" where
  "jump_linux_arm32_completed s =
     seq jump_linux_arm32_incoming (seq jump_linux_arm32_outgoing s)"

subsection \<open>The halves of the Windows variants\<close>
















definition example_labels :: "'a::len word labels" where
  "example_labels l = (if l = ''finish'' then 0x401000 else 0x401040)"

text \<open>
  A context A about to call \<^verbatim>\<open>bthread_jump_fcontext(&from, to, 0x2a, 1)\<close>: its stack pointer
  is 0x7000 with the return address 0x400123 there, \<^verbatim>\<open>from\<close> is at 0x9000.
\<close>

definition example_x86_64 :: x86_64 where
  "example_x86_64 =
     \<lparr>reg = (\<lambda>_. 0)(RSP := 0x7000, RDI := 0x9000, RSI := 0x5000, RDX := 0x2a, RCX := 1,
                    RBX := 0xb, RBP := 0xc, R12 := 0x12, R13 := 0x13, R14 := 0x14, R15 := 0x15),
      mem = store 8 (\<lambda>_. 0) 0x7000 (0x400123 :: 64 word),
      zf = False, pc = Abs 0x400100,
      mxcsr = 0x1f80, mxcsr_mask = 0xffff, fpucw = 0x37f, xmm = (\<lambda>_. 0), seg_base = 0\<rparr>"

text \<open>
  The context B later, about to jump back with the value 0x99: other registers, another
  floating-point state, its stack at 0x6000 and its own slot at 0x9100; the memory is as the
  first jump left it and the target is what that jump stored at 0x9000.
\<close>

definition example_back_x86_64 :: x86_64 where
  "example_back_x86_64 =
     (jump_linux_x86_64_completed example_x86_64)
       \<lparr>reg := (\<lambda>_. 0xdead)(RSP := 0x6000, RDI := 0x9100,
                   RSI := load 8 (mem (jump_linux_x86_64_completed example_x86_64)) 0x9000,
                   RDX := 0x99, RCX := 1),
        mxcsr := 0, fpucw := 0\<rparr>"

text \<open>
  A call \<^verbatim>\<open>bthread_make_fcontext(0x10008, 0x1000, 0x400800)\<close>, and a jump into the context it
  returns, from the stack at 0x7000 with the slot at 0x9000 and the value 0x2a.
\<close>

definition example_make_x86_64 :: x86_64 where
  "example_make_x86_64 =
     example_x86_64\<lparr>reg := (reg example_x86_64)(RDI := 0x10008, RSI := 0x1000, RDX := 0x400800)\<rparr>"

definition example_enter_x86_64 :: x86_64 where
  "example_enter_x86_64 =
     (bthread_make_fcontext_linux_x86_64 example_labels example_make_x86_64)
       \<lparr>reg := (reg example_x86_64)
          (RSI := reg (bthread_make_fcontext_linux_x86_64 example_labels example_make_x86_64) RAX)\<rparr>"

definition example_arm64 :: arm64 where
  "example_arm64 =
     \<lparr>reg = (\<lambda>_. 0)(XSP := 0x7000, X0 := 0x9000, X1 := 0x5000, X2 := 0x2a, X3 := 0,
                    X19 := 0x19, X29 := 0x29, X30 := 0x400123),
      mem = (\<lambda>_. 0xee), zf = False, pc = Abs 0x400100,
      dreg = (\<lambda>_. 0)(8 := 0xd8, 9 := 0xd9), fpcr = 0\<rparr>"

definition example_make_arm64 :: arm64 where
  "example_make_arm64 =
     example_arm64\<lparr>reg := (reg example_arm64)(X0 := 0x10008, X1 := 0x1000, X2 := 0x400800)\<rparr>"

subsection \<open>Saving and restoring the floating-point environment\<close>






subsection \<open>More examples\<close>





section \<open>Properties of the socket messages\<close>

lemma deleter_live:
  "objects w a = Some obj \<Longrightarrow>
   SocketMessageDeleter (Some a) w =
     Inr (w\<lparr>objects := (objects w)(a := None), calls := calls w @ [(a, None)]\<rparr>)"
  by (simp add: SocketMessageDeleter_def call_AppendAndDestroySelf_def split: prod.splits)

lemma deleter_not_null_fault: "SocketMessageDeleter (Some a) w \<noteq> Inl NullDereference"
  by (simp add: SocketMessageDeleter_def call_AppendAndDestroySelf_def split: prod.splits option.splits)

lemma dtor_not_null_fault: "unique_ptr_dtor u w \<noteq> Inl NullDereference"
  by (simp add: unique_ptr_dtor_def deleter_not_null_fault split: option.splits)

lemma reset_not_null_fault: "unique_ptr_reset u p w \<noteq> Inl NullDereference"
  using deleter_not_null_fault
  by (auto simp: unique_ptr_reset_def Let_def split: option.splits sum.splits)

text \<open>
  Claim C1. A wrapper that owns a live message and is destroyed, or reset, calls
  \<^verbatim>\<open>AppendAndDestroySelf\<close> on that message exactly once: the log grows by the one entry
  \<open>(a, None)\<close>, the socket being \<^verbatim>\<open>NULL\<close>, and the count of calls on the message by one. The
  result carries no status: what the call returned is dropped.
\<close>

theorem abandoned_message_called_once_with_null:
  assumes "ptr u = Some a" and "objects w a = Some obj"
  shows "unique_ptr_dtor u w =
           Inr (w\<lparr>objects := (objects w)(a := None), calls := calls w @ [(a, None)]\<rparr>) \<and>
         unique_ptr_reset u p w =
           Inr (u\<lparr>ptr := p\<rparr>,
                w\<lparr>objects := (objects w)(a := None), calls := calls w @ [(a, None)]\<rparr>) \<and>
         (\<forall>w'. unique_ptr_dtor u w = Inr w' \<or> unique_ptr_reset u p w = Inr (u\<lparr>ptr := p\<rparr>, w') \<longrightarrow>
               times_called a w' = times_called a w + 1)"
  using assms
  by (auto simp: unique_ptr_dtor_def unique_ptr_reset_def deleter_live times_called_def)

theorem abandoned_message_called_once_with_null_witness:
  "unique_ptr_dtor \<lparr>ptr = Some 2\<rparr> example_world =
     Inr (example_world\<lparr>objects := (objects example_world)(2 := None), calls := [(2, None)]\<rparr>) \<and>
   unique_ptr_reset \<lparr>ptr = Some 2\<rparr> (Some 1) example_world =
     Inr (\<lparr>ptr = Some 1\<rparr>,
          example_world\<lparr>objects := (objects example_world)(2 := None), calls := [(2, None)]\<rparr>) \<and>
   times_called 2 (example_world\<lparr>objects := (objects example_world)(2 := None), calls := [(2, None)]\<rparr>) = 1"
  using abandoned_message_called_once_with_null
    [of "\<lparr>ptr = Some 2\<rparr>" 2 example_world "label_message [66] (Status 5 ''failed'')" "Some 1"]
  by (simp add: example_world_def times_called_def)

text \<open>
  Claim C8. The deleter dereferences its argument without a test, so on a null pointer it
  faults; the wrapper never calls it so. Destroying a default-constructed, a released or a
  moved-from wrapper, and destroying, resetting or moving from any empty wrapper, leaves the
  world as it was: no call is made.
\<close>

theorem empty_wrapper_makes_no_call:
  "SocketMessageDeleter None w = Inl NullDereference \<and>
   unique_ptr_dtor u w \<noteq> Inl NullDereference \<and>
   unique_ptr_reset u p w \<noteq> Inl NullDereference \<and>
   unique_ptr_dtor SocketMessagePtr_default w = Inr w \<and>
   unique_ptr_dtor (snd (unique_ptr_release u)) w = Inr w \<and>
   unique_ptr_dtor (snd (unique_ptr_move u)) w = Inr w \<and>
   (ptr u = None \<longrightarrow>
      unique_ptr_dtor u w = Inr w \<and>
      unique_ptr_reset u p w = Inr (u\<lparr>ptr := p\<rparr>, w) \<and>
      unique_ptr_move u = (u, u))"
proof -
  have "SocketMessageDeleter None w = Inl NullDereference"
    by (simp add: SocketMessageDeleter_def call_AppendAndDestroySelf_def)
  moreover have "unique_ptr_dtor SocketMessagePtr_default w = Inr w"
    by (simp add: unique_ptr_dtor_def SocketMessagePtr_default_def)
  moreover have "unique_ptr_dtor (snd (unique_ptr_release u)) w = Inr w"
    by (simp add: unique_ptr_dtor_def unique_ptr_release_def)
  moreover have "unique_ptr_dtor (snd (unique_ptr_move u)) w = Inr w"
    by (simp add: unique_ptr_dtor_def unique_ptr_move_def unique_ptr_release_def)
  moreover have "ptr u = None \<longrightarrow>
      unique_ptr_dtor u w = Inr w \<and>
      unique_ptr_reset u p w = Inr (u\<lparr>ptr := p\<rparr>, w) \<and>
      unique_ptr_move u = (u, u)"
    by (simp add: unique_ptr_dtor_def unique_ptr_reset_def unique_ptr_move_def
        unique_ptr_release_def SocketMessagePtr_of_def)
  ultimately show ?thesis
    using dtor_not_null_fault reset_not_null_fault by blast
qed

theorem empty_wrapper_makes_no_call_witness:
  "ptr SocketMessagePtr_default = None \<and>
   unique_ptr_dtor SocketMessagePtr_default example_world = Inr example_world \<and>
   unique_ptr_reset SocketMessagePtr_default None example_world =
     Inr (SocketMessagePtr_default, example_world) \<and>
   unique_ptr_move SocketMessagePtr_default = (SocketMessagePtr_default, SocketMessagePtr_default)"
  using empty_wrapper_makes_no_call [of example_world SocketMessagePtr_default None]
  by (simp add: SocketMessagePtr_default_def)

text \<open>
  Claim C6. For every message class \<open>'T\<close>, a typed wrapper converts to the type-erased one:
  the result owns the same message and the source is left empty, so that destroying the
  source makes no call and destroying the result does what destroying the typed wrapper
  would have done. Wrappers of two classes \<open>'T\<close> and \<open>'U\<close> convert into one list. The typed
  \<^verbatim>\<open>operator*\<close>, \<^verbatim>\<open>operator->\<close> and \<^verbatim>\<open>release\<close> give the stored address as a \<open>'T pointer\<close>.
\<close>

theorem typed_wrapper_converts_to_type_erased:
  fixes u :: "'T SocketMessagePtrT" and v :: "'U SocketMessagePtrT"
  shows "ptr (fst (to_SocketMessagePtr u)) = ptr (base u) \<and>
         ptr (base (snd (to_SocketMessagePtr u))) = None \<and>
         unique_ptr_dtor (base (snd (to_SocketMessagePtr u))) w = Inr w \<and>
         unique_ptr_dtor (fst (to_SocketMessagePtr u)) w = unique_ptr_dtor (base u) w \<and>
         map ptr [fst (to_SocketMessagePtr u), fst (to_SocketMessagePtr v)] =
           [ptr (base u), ptr (base v)] \<and>
         operator_arrow u = (Pointer (ptr (base u)) :: 'T pointer) \<and>
         operator_star u =
           (case ptr (base u) of None \<Rightarrow> Inl NullDereference
            | Some a \<Rightarrow> Inr (Pointer (Some a) :: 'T pointer)) \<and>
         release u = (Pointer (ptr (base u)) :: 'T pointer, Typed \<lparr>ptr = None\<rparr>) \<and>
         base (SocketMessagePtrT_of (Pointer p :: 'T pointer)) = SocketMessagePtr_of p"
  by (cases u; cases v)
    (simp add: to_SocketMessagePtr_def unique_ptr_move_def unique_ptr_release_def
      SocketMessagePtr_of_def unique_ptr_dtor_def operator_arrow_def operator_star_def
      release_def static_cast_def SocketMessagePtrT_of_def split: option.splits)

theorem typed_wrapper_converts_to_type_erased_witness:
  "map ptr [fst (to_SocketMessagePtr (SocketMessagePtrT_of (Pointer (Some 1) :: msg_class_A pointer))),
            fst (to_SocketMessagePtr (SocketMessagePtrT_of (Pointer (Some 2) :: msg_class_B pointer)))] =
     [Some 1, Some 2] \<and>
   release (SocketMessagePtrT_of (Pointer (Some 1) :: msg_class_A pointer)) =
     (Pointer (Some 1), Typed \<lparr>ptr = None\<rparr>)"
  using typed_wrapper_converts_to_type_erased
    [of "SocketMessagePtrT_of (Pointer (Some 1) :: msg_class_A pointer)" _
      "SocketMessagePtrT_of (Pointer (Some 2) :: msg_class_B pointer)"]
  by (simp add: SocketMessagePtrT_of_def SocketMessagePtr_of_def)

section \<open>Properties of the memory\<close>

lemma length_le_bytes [simp]: "length (le_bytes n v) = n"
  by (induction n arbitrary: v) auto

lemma le_word_le_bytes: "(le_word (le_bytes n v) :: 'b::len word) = take_bit (8 * n) (v :: 'b word)"
proof (induction n arbitrary: v)
  case 0
  then show ?case by simp
next
  case (Suc n)
  show ?case
    apply (simp add: Suc)
    apply (rule bit_word_eqI)
    apply (auto simp: bit_simps)
    done
qed

lemma unat_diff_succ:
  "x \<noteq> a \<Longrightarrow> unat (x - (a + 1)) = unat (x - a) - 1" for x a :: "'w::len word"
proof -
  assume "x \<noteq> a"
  then have "x - a \<noteq> 0" by simp
  then have "unat ((x - a) - 1) = unat (x - a) - 1" by (rule unat_minus_one)
  moreover have "x - (a + 1) = (x - a) - 1" by (simp add: algebra_simps)
  ultimately show ?thesis by (simp only:)
qed

lemma store_bytes_outside:
  "length bs \<le> unat (x - a) \<Longrightarrow> store_bytes m a bs x = m x"
proof (induction bs arbitrary: m a)
  case Nil
  then show ?case by simp
next
  case (Cons b bs)
  from Cons.prems have "x \<noteq> a" by auto
  with Cons.prems have "length bs \<le> unat (x - (a + 1))"
    by (simp add: unat_diff_succ)
  with \<open>x \<noteq> a\<close> show ?case using Cons.IH by simp
qed

lemma store_bytes_inside:
  "unat (x - a) < length bs \<Longrightarrow> length bs \<le> 2 ^ LENGTH('w) \<Longrightarrow>
   store_bytes m a bs x = bs ! unat (x - a)" for x a :: "'w::len word"
proof (induction bs arbitrary: m a)
  case Nil
  then show ?case by simp
next
  case (Cons b bs)
  show ?case
  proof (cases "x = a")
    case True
    have "length bs \<le> unat (x - (a + 1))"
    proof -
      have "x - (a + 1) = - 1" using True by simp
      then have "unat (x - (a + 1)) = 2 ^ LENGTH('w) - 1"
        by (simp add: unsigned_minus_1_eq_mask mask_eq_exp_minus_1)
      with Cons.prems(2) show ?thesis by simp
    qed
    then have "store_bytes (m(a := b)) (a + 1) bs x = (m(a := b)) x"
      by (rule store_bytes_outside)
    with True show ?thesis by simp
  next
    case False
    then have u: "unat (x - (a + 1)) = unat (x - a) - 1" by (rule unat_diff_succ)
    from False have "unat (x - a) \<noteq> 0" by (simp add: unat_eq_zero)
    with Cons.prems u have "unat (x - (a + 1)) < length bs" by simp
    moreover from Cons.prems have "length bs \<le> 2 ^ LENGTH('w)" by simp
    ultimately have "store_bytes (m(a := b)) (a + 1) bs x = bs ! unat (x - (a + 1))"
      by (rule Cons.IH)
    with u \<open>unat (x - a) \<noteq> 0\<close> show ?thesis by (simp add: nth_Cons')
  qed
qed

lemma load_bytes_eq_map: "load_bytes m a n = map (\<lambda>i. m (a + of_nat i)) [0..<n]"
proof (induction n arbitrary: a)
  case 0
  then show ?case by simp
next
  case (Suc n)
  have "map (\<lambda>i. m (a + of_nat i)) [0..<Suc n] = m a # map (\<lambda>i. m (a + 1 + of_nat i)) [0..<n]"
    by (simp add: upt_conv_Cons map_Suc_upt [symmetric] add.assoc del: upt_Suc)
  then show ?case by (simp add: Suc del: upt_Suc)
qed

lemma unat_of_nat_small:
  "i < n \<Longrightarrow> n \<le> 2 ^ LENGTH('w) \<Longrightarrow> unat (of_nat i :: 'w::len word) = i"
  by (simp add: unat_of_nat)

lemma load_bytes_store_bytes_same:
  "length bs \<le> 2 ^ LENGTH('w) \<Longrightarrow>
   load_bytes (store_bytes m a bs) a (length bs) = bs" for a :: "'w::len word"
  by (rule nth_equalityI)
    (simp_all add: load_bytes_eq_map store_bytes_inside unat_of_nat_small)

lemma load_bytes_cong:
  "(\<And>i. i < n \<Longrightarrow> m (a + of_nat i) = m' (a + of_nat i)) \<Longrightarrow>
   load_bytes m a n = load_bytes m' a n"
  by (simp add: load_bytes_eq_map)

lemma separate_offset:
  assumes "separate a n b k" and "i < k"
  shows "n \<le> unat (b + of_nat i - a)"
proof -
  from assms have n: "n \<le> unat (b - a)" and k: "k \<le> unat (a - b)"
    by (simp_all add: separate_def)
  have ba: "unat (b - a) < 2 ^ LENGTH('a)" by (rule unsigned_less)
  have ab: "unat (a - b) < 2 ^ LENGTH('a)" by (rule unsigned_less)
  from k \<open>i < k\<close> ab have i: "i < 2 ^ LENGTH('a)" by linarith
  then have ui: "unat (of_nat i :: 'a word) = i" by (simp add: unat_of_nat)
  have "a - b = - (b - a)" by simp
  have sum: "unat (b - a) + unat (a - b) = (if a = b then 0 else 2 ^ LENGTH('a))"
  proof (cases "a = b")
    case True
    then show ?thesis by simp
  next
    case False
    then have ne: "unat b \<noteq> unat a" by (simp add: word_unat_eq_iff)
    have la: "unat a < 2 ^ LENGTH('a)" and lb: "unat b < 2 ^ LENGTH('a)"
      by (rule unsigned_less)+
    have "unat (b - a) + unat (a - b) = 2 ^ LENGTH('a)"
    proof (cases "unat b \<le> unat a")
      case True
      with ne have "\<not> unat a \<le> unat b" by simp
      then have "unat (b - a) = unat b + 2 ^ LENGTH('a) - unat a"
        by (simp add: unat_sub_if')
      moreover from True have "unat (a - b) = unat a - unat b"
        by (simp add: unat_sub_if')
      ultimately show ?thesis using True la lb by linarith
    next
      case False
      then have "unat (a - b) = unat a + 2 ^ LENGTH('a) - unat b"
        by (simp add: unat_sub_if')
      moreover from False have "unat (b - a) = unat b - unat a"
        by (simp add: unat_sub_if')
      ultimately show ?thesis using False la lb by linarith
    qed
    with False show ?thesis by simp
  qed
  show ?thesis
  proof (cases "a = b")
    case True
    with k \<open>i < k\<close> show ?thesis by simp
  next
    case False
    with sum k \<open>i < k\<close> have lt: "unat (b - a) + i < 2 ^ LENGTH('a)" by simp
    have e: "b + of_nat i - a = (b - a) + of_nat i" by (simp add: algebra_simps)
    have "unat ((b - a) + of_nat i :: 'a word) = unat (b - a) + i"
      using lt ui by (simp add: unat_word_ariths)
    then have "unat (b + of_nat i - a) = unat (b - a) + i" by (simp only: e)
    with n show ?thesis by linarith
  qed
qed

lemma load_bytes_store_bytes_separate:
  "separate a (length bs) b k \<Longrightarrow> load_bytes (store_bytes m a bs) b k = load_bytes m b k"
  by (rule load_bytes_cong) (simp add: store_bytes_outside separate_offset)

lemma load_store_same:
  "LENGTH('b) \<le> 8 * n \<Longrightarrow> n \<le> 2 ^ LENGTH('w) \<Longrightarrow>
   load n (store n m a v) a = v" for a :: "'w::len word" and v :: "'b::len word"
  by (simp add: load_def store_def load_bytes_store_bytes_same [where bs="le_bytes n v", simplified]
      le_word_le_bytes take_bit_word_eq_self)

lemma load_store_separate:
  "separate a n b k \<Longrightarrow> load k (store n m a v) b = load k m b"
  by (simp add: load_def store_def load_bytes_store_bytes_separate)

lemma store_outside: "n \<le> unat (x - a) \<Longrightarrow> store n m a v x = m x"
  by (simp add: store_def store_bytes_outside)

lemma unat_neg:
  fixes w :: "'a::len word"
  shows "unat (- w) = (if w = 0 then 0 else 2 ^ LENGTH('a) - unat w)"
proof (cases "w = 0")
  case True
  then show ?thesis by simp
next
  case False
  then have "\<not> unat w \<le> unat (0 :: 'a word)" by (simp add: unat_eq_zero)
  then have "unat (0 - w) = unat (0 :: 'a word) + 2 ^ LENGTH('a) - unat w"
    by (simp only: unat_sub_if' if_False)
  with False show ?thesis by simp
qed

lemma sep_arith:
  fixes d x y :: "'a::len word"
  assumes n: "n \<le> unat d" and k: "k \<le> unat (- d)"
    and x: "unat x + n' \<le> n" and y: "unat y + k' \<le> k" and n': "0 < n'" and k': "0 < k'"
  shows "n' \<le> unat (d + y - x) \<and> k' \<le> unat (- (d + y - x))"
proof -
  let ?P = "2 ^ LENGTH('a) :: nat"
  from n x n' have "unat d \<noteq> 0" by linarith
  then have d0: "d \<noteq> 0" by (simp add: unat_eq_zero)
  then have nd: "unat (- d) = ?P - unat d" by (simp add: unat_neg)
  have dP: "unat d < ?P" by (rule unsigned_less)
  from k y k' nd dP have dy: "unat d + unat y + k' \<le> ?P" by linarith
  with k' have "unat d + unat y < ?P" by linarith
  then have s: "unat (d + y) = unat d + unat y"
    by (simp add: unat_word_ariths)
  from n x have "unat x \<le> unat (d + y)" using s by linarith
  then have v: "unat (d + y - x) = unat d + unat y - unat x"
    using s by (simp add: unat_sub_if')
  from n x n' have 1: "n' \<le> unat d + unat y - unat x" by linarith
  with n' v have "unat (d + y - x) \<noteq> 0" by linarith
  then have "d + y - x \<noteq> 0" by (simp add: unat_eq_zero)
  then have "unat (- (d + y - x)) = ?P - unat (d + y - x)"
    using unat_neg [of "d + y - x"] by (simp only: if_False)
  with v dy have "k' \<le> unat (- (d + y - x))" by linarith
  with 1 v show ?thesis by simp
qed

lemma separate_sub:
  assumes "separate a n b k" and "unat (a' - a) + n' \<le> n" and "unat (b' - b) + k' \<le> k"
    and "0 < n'" and "0 < k'"
  shows "separate a' n' b' k'"
proof -
  have e1: "b' - a' = (b - a) + (b' - b) - (a' - a)" by (simp add: algebra_simps)
  have e2: "a' - b' = - ((b - a) + (b' - b) - (a' - a))" by (simp add: algebra_simps)
  have e3: "a - b = - (b - a)" by simp
  from assms(1) have "n \<le> unat (b - a)" "k \<le> unat (- (b - a))"
    unfolding separate_def e3 [symmetric] by simp_all
  from sep_arith [OF this assms(2,3,4,5)]
  have "n' \<le> unat ((b - a) + (b' - b) - (a' - a)) \<and>
        k' \<le> unat (- ((b - a) + (b' - b) - (a' - a)))" .
  then have "n' \<le> unat (b' - a') \<and> k' \<le> unat (a' - b')"
    by (simp only: e1 e2)
  then show ?thesis by (simp only: separate_def)
qed

lemma load_agree:
  assumes "\<forall>x. unat (x - b) < k \<longrightarrow> m x = m' x" and "unat (b' - b) + k' \<le> k"
  shows "load k' m b' = (load k' m' b' :: 'b::len word)"
proof -
  have "load_bytes m b' k' = load_bytes m' b' k'"
  proof (rule load_bytes_cong)
    fix i assume "i < k'"
    have e: "b' + of_nat i - b = (b' - b) + of_nat i" by (simp add: algebra_simps)
    have "unat ((b' - b) + of_nat i :: 'a word) \<le> unat (b' - b) + unat (of_nat i :: 'a word)"
      by (simp only: unat_word_ariths mod_less_eq_dividend)
    then have "unat (b' + of_nat i - b) \<le> unat (b' - b) + unat (of_nat i :: 'a word)"
      by (simp only: e)
    also have "unat (of_nat i :: 'a word) \<le> i" by (simp add: unat_of_nat)
    finally have "unat (b' + of_nat i - b) < k" using \<open>i < k'\<close> assms(2) by linarith
    with assms(1) show "m (b' + of_nat i) = m' (b' + of_nat i)" by blast
  qed
  then show ?thesis by (simp add: load_def)
qed

lemma separate_sym: "separate a n b k = separate b k a n"
  by (auto simp: separate_def)

lemma separate_const: "n \<le> unat (b - a) \<Longrightarrow> k \<le> unat (a - b) \<Longrightarrow> separate a n b k"
  by (simp add: separate_def)


lemma low4: "(15 :: 'a::len word) = mask 4" by (simp add: mask_eq_exp_minus_1)
lemma high4: "(- 16 :: 'a::len word) = NOT (mask 4)" by (simp add: mask_eq_exp_minus_1 not_eq_complement)

lemma align16_split: "(x AND - 16) + (x AND 15) = (x :: 'a::len word)"
proof -
  have "(x AND - 16) AND (x AND 15) = 0"
    unfolding low4 high4 by (rule bit_word_eqI) (auto simp: bit_simps)
  moreover have "(x AND - 16) OR (x AND 15) = x"
    unfolding low4 high4 by (rule bit_word_eqI) (auto simp: bit_simps)
  ultimately show ?thesis
    using word_plus_and_or [of "x AND - 16" "x AND 15"] by simp
qed

lemma unat_low4: "unat ((x :: 'a::len word) AND 15) < 16"
proof -
  have "unat (x AND 15) \<le> unat (15 :: 'a word)"
    by (rule word_and_le1 [THEN word_le_nat_alt [THEN iffD1]])
  also have "unat (15 :: 'a word) \<le> 15"
    by (simp add: unat_of_nat [of 15, where 'a='a, simplified])
  finally show ?thesis by simp
qed

lemma aligned16: "((x :: 'a::len word) AND - 16) AND 15 = 0"
  unfolding low4 high4 by (rule bit_word_eqI) (auto simp: bit_simps)

text \<open>
  Sums of a register, or of a loaded word, and a constant are written with the constant
  last.
\<close>

lemma numeral_plus_reg: "numeral k + reg s r = reg s r + (numeral k :: 'a::len word)"
  by (rule add.commute)

lemma numeral_plus_load: "numeral k + load n m a = load n m a + (numeral k :: 'a::len word)"
  by (rule add.commute)

lemmas numeral_plus_word = numeral_plus_reg numeral_plus_load

lemmas instr_defs = push_def pop_def lea_def lea_index_def mov_def mov_imm_def mov_store_def
  mov_load_def mov_seg_def xchg_def and_imm_def and_reg_def xor_reg_def add_imm_def sub_imm_def
  neg_reg_def inc_def dec_def cmp_imm_def test_def je_over_def jmp_reg_def ret_def call_def
  stmxcsr_def fnstcw_def load_mxcsr_def fldcw_def

lemmas mem_simps = load_store_same load_store_separate separate_const numeral_plus_word

lemma same_on_load:
  assumes "same_on b k m m'" and "unat (b' - b) + k' \<le> k"
  shows "load k' m b' = (load k' m' b' :: 'b::len word)"
proof (rule load_agree [OF _ assms(2)], intro allI impI)
  fix x :: "'a word" assume x: "unat (x - b) < k"
  from assms(1) have "map (\<lambda>i. m (b + of_nat i)) [0..<k] = map (\<lambda>i. m' (b + of_nat i)) [0..<k]"
    by (simp add: same_on_def load_bytes_eq_map)
  then have "\<forall>i<k. m (b + of_nat i) = m' (b + of_nat i)"
    by (simp add: list_eq_iff_nth_eq)
  with x have "m (b + of_nat (unat (x - b))) = m' (b + of_nat (unat (x - b)))" by blast
  then show "m x = m' x" by simp
qed

lemma same_on_store: "separate a n b k \<Longrightarrow> same_on b k (store n m a v) m"
  by (simp add: same_on_def store_def load_bytes_store_bytes_separate)

lemma same_on_refl: "same_on b k m m"
  by (simp add: same_on_def)

lemma store_not_within: "\<not> within a n x \<Longrightarrow> store n m a v x = m x"
  by (simp add: within_def store_outside)

lemma jump_linux_x86_64_halves:
  "jump_linux_x86_64_completed s =
     seq jump_linux_x86_64_incoming (seq jump_linux_x86_64_outgoing s)"
  by (simp add: jump_linux_x86_64_completed_def)

lemma jump_linux_x86_64_outgoing_nofp:
  "reg s RCX = 0 \<Longrightarrow>
   seq jump_linux_x86_64_outgoing s =
     s\<lparr>reg := (reg s)(RSP := reg s RSP - 56), zf := True,
       mem :=
         store 8
          (store 8 (store 8 (store 8 (store 8 (store 8 (store 8 (mem s)
             (reg s RSP - 8) (reg s RBP))
             (reg s RSP - 16) (reg s RBX))
             (reg s RSP - 24) (reg s R15))
             (reg s RSP - 32) (reg s R14))
             (reg s RSP - 40) (reg s R13))
             (reg s RSP - 48) (reg s R12))
          (reg s RDI) (reg s RSP - 56)\<rparr>"
  by (simp add: jump_linux_x86_64_outgoing_def instr_defs)

lemma jump_linux_x86_64_outgoing_fp:
  "reg s RCX \<noteq> 0 \<Longrightarrow>
   seq jump_linux_x86_64_outgoing s =
     s\<lparr>reg := (reg s)(RSP := reg s RSP - 56), zf := False,
       mem :=
         store 8
          (store 2 (store 4
          (store 8 (store 8 (store 8 (store 8 (store 8 (store 8 (mem s)
             (reg s RSP - 8) (reg s RBP))
             (reg s RSP - 16) (reg s RBX))
             (reg s RSP - 24) (reg s R15))
             (reg s RSP - 32) (reg s R14))
             (reg s RSP - 40) (reg s R13))
             (reg s RSP - 48) (reg s R12))
             (reg s RSP - 56) (mxcsr s))
             (reg s RSP - 52) (fpucw s))
          (reg s RDI) (reg s RSP - 56)\<rparr>"
  by (simp add: jump_linux_x86_64_outgoing_def instr_defs)

lemma jump_linux_x86_64_incoming_nofp:
  "reg s RCX = 0 \<Longrightarrow>
   seq jump_linux_x86_64_incoming s =
     s\<lparr>zf := True,
       reg := (reg s)
         (R12 := load 8 (mem s) (reg s RSI + 8),
          R13 := load 8 (mem s) (reg s RSI + 16),
          R14 := load 8 (mem s) (reg s RSI + 24),
          R15 := load 8 (mem s) (reg s RSI + 32),
          RBX := load 8 (mem s) (reg s RSI + 40),
          RBP := load 8 (mem s) (reg s RSI + 48),
          R8 := load 8 (mem s) (reg s RSI + 56), RSP := reg s RSI + 64,
          RAX := reg s RDX, RDI := reg s RDX),
       pc := Abs (load 8 (mem s) (reg s RSI + 56))\<rparr>"
  by (simp add: jump_linux_x86_64_incoming_def instr_defs numeral_plus_word)

lemma jump_linux_x86_64_incoming_fp:
  "reg s RCX \<noteq> 0 \<Longrightarrow>
   seq jump_linux_x86_64_incoming s =
     s\<lparr>zf := False, mxcsr := load 4 (mem s) (reg s RSI),
       fpucw := x87_control (load 2 (mem s) (reg s RSI + 4)),
       reg := (reg s)
         (R12 := load 8 (mem s) (reg s RSI + 8),
          R13 := load 8 (mem s) (reg s RSI + 16),
          R14 := load 8 (mem s) (reg s RSI + 24),
          R15 := load 8 (mem s) (reg s RSI + 32),
          RBX := load 8 (mem s) (reg s RSI + 40),
          RBP := load 8 (mem s) (reg s RSI + 48),
          R8 := load 8 (mem s) (reg s RSI + 56), RSP := reg s RSI + 64,
          RAX := reg s RDX, RDI := reg s RDX),
       pc := Abs (load 8 (mem s) (reg s RSI + 56))\<rparr>"
  by (simp add: jump_linux_x86_64_incoming_def instr_defs numeral_plus_word)

lemma within_sub:
  assumes "within a' n' x" and "unat (a' - a) + n' \<le> n"
  shows "within a n x"
proof -
  have "x - a = (x - a') + (a' - a)" by (simp add: algebra_simps)
  then have "unat (x - a) \<le> unat (x - a') + unat (a' - a)"
    by (simp only: unat_word_ariths mod_less_eq_dividend)
  with assms show ?thesis by (simp add: within_def)
qed

lemma store_outside_area:
  "\<not> within a n x \<Longrightarrow> unat (a' - a) + n' \<le> n \<Longrightarrow> store n' m a' v x = m x"
  using within_sub [of a' n' x a n] by (auto intro: store_not_within)

lemma make_linux_x86_64_result:
  "reg (bthread_make_fcontext_linux_x86_64 L s) RAX = (reg s RDI AND - 16) - 0x48"
  by (simp add: bthread_make_fcontext_linux_x86_64_def instr_defs)

lemma make_linux_x86_64_mem:
  "mem (bthread_make_fcontext_linux_x86_64 L s) =
     (let ctx = (reg s RDI AND - 16) - 0x48 in
      store 8 (store 2 (store 4 (store 8 (mem s)
        (ctx + 0x38) (reg s RDX))
        ctx (mxcsr s))
        (ctx + 0x4) (fpucw s))
        (ctx + 0x40) (L ''finish''))"
  by (simp add: bthread_make_fcontext_linux_x86_64_def instr_defs Let_def)

lemma make_linux_x86_64_seeds:
  fixes s :: x86_64 and L :: "64 word labels"
  defines "s' \<equiv> bthread_make_fcontext_linux_x86_64 L s"
  shows "load 8 (mem s') (reg s' RAX + 0x38) = reg s RDX"
    and "load 8 (mem s') (reg s' RAX + 0x40) = L ''finish''"
    and "load 4 (mem s') (reg s' RAX) = mxcsr s"
    and "load 2 (mem s') (reg s' RAX + 4) = fpucw s"
  unfolding s'_def
  by (simp_all add: make_linux_x86_64_mem make_linux_x86_64_result Let_def mem_simps)

lemma make_linux_x86_64_frame:
  fixes s :: x86_64 and L :: "64 word labels"
  defines "s' \<equiv> bthread_make_fcontext_linux_x86_64 L s"
  assumes "\<not> within (reg s' RAX) 0x48 x"
  shows "mem s' x = mem s x"
  using assms
  by (simp add: make_linux_x86_64_mem make_linux_x86_64_result Let_def store_outside_area)

lemma save_area_below_top:
  fixes top x :: "'a::len word"
  assumes "within ((top AND - 16) - of_nat n) n x" and "n + 15 < 2 ^ LENGTH('a)"
  shows "0 < unat (top - x) \<and> unat (top - x) \<le> n + 15"
proof -
  define w where "w = x - ((top AND - 16) - of_nat n)"
  define p :: "'a word" where "p = of_nat n + (top AND 15)"
  from assms have w: "unat w < n" by (simp add: within_def w_def)
  have n: "unat (of_nat n :: 'a word) = n" using assms(2) by (simp add: unat_of_nat)
  have l: "unat (top AND 15) < 16" by (rule unat_low4)
  have "unat p = (n + unat (top AND 15)) mod 2 ^ LENGTH('a)"
    unfolding p_def by (simp only: unat_word_ariths n)
  with l assms(2) have p: "unat p = n + unat (top AND 15)" by simp
  have "top = (top AND - 16) + (top AND 15)" by (simp only: align16_split)
  then have "top - x = ((top AND - 16) + (top AND 15)) - x" by simp
  also have "\<dots> = p - w" by (simp add: p_def w_def algebra_simps)
  finally have e: "top - x = p - w" .
  from w p have "w \<le> p" by (simp add: word_le_nat_alt)
  then have "unat (p - w) = unat p - unat w" by (rule unat_sub)
  with e p w l show ?thesis by simp
qed

lemma jump_linux_x86_64_effect:
  "jump_linux_x86_64_completed s =
     (let m = mem (seq jump_linux_x86_64_outgoing s); t = reg s RSI in
      s\<lparr>reg := (reg s)
         (R12 := load 8 m (t + 8),
          R13 := load 8 m (t + 16),
          R14 := load 8 m (t + 24),
          R15 := load 8 m (t + 32),
          RBX := load 8 m (t + 40),
          RBP := load 8 m (t + 48),
          R8 := load 8 m (t + 56), RSP := t + 64,
          RAX := reg s RDX, RDI := reg s RDX),
        mem := m,
        zf := (reg s RCX = 0),
        pc := Abs (load 8 m (t + 56)),
        mxcsr := (if reg s RCX = 0 then mxcsr s else load 4 m t),
        fpucw := (if reg s RCX = 0 then fpucw s else x87_control (load 2 m (t + 4)))\<rparr>)"
proof (cases "reg s RCX = 0")
  case True
  then show ?thesis
    by (simp add: jump_linux_x86_64_halves jump_linux_x86_64_incoming_nofp
        jump_linux_x86_64_outgoing_nofp Let_def)
next
  case False
  then show ?thesis
    by (simp add: jump_linux_x86_64_halves jump_linux_x86_64_incoming_fp
        jump_linux_x86_64_outgoing_fp Let_def)
qed

lemma jump_linux_x86_64_saves:
  fixes a :: x86_64
  assumes fa: "separate (reg a RDI) 8 (reg a RSP - 0x38) 0x40"
  defines "m \<equiv> mem (seq jump_linux_x86_64_outgoing a)"
  shows "load 8 m (reg a RDI) = reg a RSP - 0x38"
    and "load 8 m (reg a RSP - 0x30) = reg a R12"
    and "load 8 m (reg a RSP - 0x28) = reg a R13"
    and "load 8 m (reg a RSP - 0x20) = reg a R14"
    and "load 8 m (reg a RSP - 0x18) = reg a R15"
    and "load 8 m (reg a RSP - 0x10) = reg a RBX"
    and "load 8 m (reg a RSP - 0x8) = reg a RBP"
    and "load 8 m (reg a RSP) = (load 8 (mem a) (reg a RSP) :: 64 word)"
    and "reg a RCX \<noteq> 0 \<Longrightarrow> load 4 m (reg a RSP - 0x38) = mxcsr a"
    and "reg a RCX \<noteq> 0 \<Longrightarrow> load 2 m (reg a RSP - 0x34) = fpucw a"
proof -
  note sep = separate_sub [OF fa]
  show "load 8 m (reg a RDI) = reg a RSP - 0x38"
    and "load 8 m (reg a RSP - 0x30) = reg a R12"
    and "load 8 m (reg a RSP - 0x28) = reg a R13"
    and "load 8 m (reg a RSP - 0x20) = reg a R14"
    and "load 8 m (reg a RSP - 0x18) = reg a R15"
    and "load 8 m (reg a RSP - 0x10) = reg a RBX"
    and "load 8 m (reg a RSP - 0x8) = reg a RBP"
    and "load 8 m (reg a RSP) = (load 8 (mem a) (reg a RSP) :: 64 word)"
    unfolding m_def
    by (cases "reg a RCX = 0";
        simp add: jump_linux_x86_64_outgoing_nofp jump_linux_x86_64_outgoing_fp mem_simps sep)+
  show "reg a RCX \<noteq> 0 \<Longrightarrow> load 4 m (reg a RSP - 0x38) = mxcsr a"
    and "reg a RCX \<noteq> 0 \<Longrightarrow> load 2 m (reg a RSP - 0x34) = fpucw a"
    unfolding m_def
    by (simp_all add: jump_linux_x86_64_outgoing_fp mem_simps sep)
qed

text \<open>The outgoing half writes the save area below the stack pointer and the slot at \<open>RDI\<close>.\<close>

lemma jump_linux_x86_64_outgoing_frame:
  fixes b :: x86_64
  assumes "separate (reg b RSP - 0x38) 0x38 t n" and "separate (reg b RDI) 8 t n"
    and "unat (t' - t) + k \<le> n" and "0 < k"
  shows "load k (mem (seq jump_linux_x86_64_outgoing b)) t' = (load k (mem b) t' :: 'b::len word)"
proof -
  note sep = separate_sub [OF assms(1)] separate_sub [OF assms(2)]
  from assms(3,4) show ?thesis
    by (cases "reg b RCX = 0")
      (simp_all add: jump_linux_x86_64_outgoing_nofp jump_linux_x86_64_outgoing_fp
        load_store_separate sep)
qed

lemma round_trip:
  fixes a b :: x86_64
  assumes fa: "separate (reg a RDI) 8 (reg a RSP - 0x38) 0x40"
    and kept: "same_on (reg a RSP - 0x38) 0x40 (mem b) (mem (jump_linux_x86_64_completed a))"
    and to: "reg b RSI = load 8 (mem (jump_linux_x86_64_completed a)) (reg a RDI)"
    and sb: "separate (reg b RSP - 0x38) 0x38 (reg a RSP - 0x38) 0x40"
    and fb: "separate (reg b RDI) 8 (reg a RSP - 0x38) 0x40"
  shows "(let c = jump_linux_x86_64_completed b in
          reg c R12 = reg a R12 \<and> reg c R13 = reg a R13 \<and> reg c R14 = reg a R14 \<and>
          reg c R15 = reg a R15 \<and> reg c RBX = reg a RBX \<and> reg c RBP = reg a RBP \<and>
          reg c RSP = reg a RSP + 8 \<and> pc c = Abs (load 8 (mem a) (reg a RSP)) \<and>
          reg c RAX = reg b RDX \<and>
          (reg a RCX \<noteq> 0 \<and> reg b RCX \<noteq> 0 \<longrightarrow> mxcsr c = mxcsr a \<and> fpucw c = x87_control (fpucw a)))"
proof -
  have ma: "mem (jump_linux_x86_64_completed a) = mem (seq jump_linux_x86_64_outgoing a)"
    by (simp add: jump_linux_x86_64_effect Let_def)
  note saves = jump_linux_x86_64_saves [OF fa]
  have to': "reg b RSI = reg a RSP - 0x38"
    by (simp add: to ma saves)
  note fr = jump_linux_x86_64_outgoing_frame [OF sb fb]
  note ag = same_on_load [OF kept [unfolded ma]]
  show ?thesis
    by (simp add: jump_linux_x86_64_effect [of b] Let_def to' fr ag saves)
qed

lemma separate_not_within:
  assumes "separate a n b k" and "within b k x"
  shows "\<not> within a n x"
proof -
  from assms(2) have i: "unat (x - b) < k" by (simp add: within_def)
  from separate_offset [OF assms(1) i] show ?thesis by (simp add: within_def)
qed


lemma fresh_linux_x86_64:
  fixes m0 s :: x86_64 and L :: "64 word labels"
  defines "m1 \<equiv> bthread_make_fcontext_linux_x86_64 L m0"
  assumes kept: "same_on (reg m1 RAX) 0x48 (mem s) (mem m1)"
    and to: "reg s RSI = reg m1 RAX"
    and sb: "separate (reg s RSP - 0x38) 0x38 (reg m1 RAX) 0x48"
    and fb: "separate (reg s RDI) 8 (reg m1 RAX) 0x48"
  shows "pc (jump_linux_x86_64_completed s) = Abs (reg m0 RDX)"
    and "reg (jump_linux_x86_64_completed s) RDI = reg s RDX"
    and "reg (jump_linux_x86_64_completed s) RAX = reg s RDX"
    and "reg (jump_linux_x86_64_completed s) RSP = reg m1 RAX + 0x40"
    and "load 8 (mem (jump_linux_x86_64_completed s)) (reg m1 RAX + 0x40) = L ''finish''"
    and "reg s RCX \<noteq> 0 \<Longrightarrow> mxcsr (jump_linux_x86_64_completed s) = mxcsr m0"
    and "reg s RCX \<noteq> 0 \<Longrightarrow> fpucw (jump_linux_x86_64_completed s) = x87_control (fpucw m0)"
proof -
  note fr = jump_linux_x86_64_outgoing_frame [OF sb fb]
  note ag = same_on_load [OF kept]
  note seeds = make_linux_x86_64_seeds [where L = L and s = m0, folded m1_def]
  show "pc (jump_linux_x86_64_completed s) = Abs (reg m0 RDX)"
    and "reg (jump_linux_x86_64_completed s) RDI = reg s RDX"
    and "reg (jump_linux_x86_64_completed s) RAX = reg s RDX"
    and "reg (jump_linux_x86_64_completed s) RSP = reg m1 RAX + 0x40"
    and "load 8 (mem (jump_linux_x86_64_completed s)) (reg m1 RAX + 0x40) = L ''finish''"
    and "reg s RCX \<noteq> 0 \<Longrightarrow> mxcsr (jump_linux_x86_64_completed s) = mxcsr m0"
    and "reg s RCX \<noteq> 0 \<Longrightarrow> fpucw (jump_linux_x86_64_completed s) = x87_control (fpucw m0)"
    by (simp_all add: jump_linux_x86_64_effect Let_def to fr ag seeds)
qed


lemmas arm_defs = arm_mov_def arm_mov_imm_def arm_add_def arm_sub_def arm_and_def arm_bic_def
  arm_cmp_def beq_over_def arm_str_def arm_ldr_def stm_db_def ldm_ia_def pop_pc_def
  branch_reg_def bl_def vstmia_def vldmia_def stp_d_def ldp_d_def stp_def ldp_def

lemma jump_linux_arm64_halves:
  "jump_linux_arm64_completed s =
     seq jump_linux_arm64_incoming (seq jump_linux_arm64_outgoing s)"
  by (simp add: jump_linux_arm64_completed_def)

lemma jump_linux_arm64_outgoing_closed:
  "seq jump_linux_arm64_outgoing s =
     s\<lparr>reg := (reg s)(XSP := reg s XSP - 176, X4 := reg s XSP - 176),
       mem :=
         store 8
          (store 8
            (store_regs 8 (reg s)
              (store_dregs (dreg s) (mem s) (reg s XSP - 176) [8, 9, 10, 11, 12, 13, 14, 15])
              (reg s XSP - 112)
              [X19, X20, X21, X22, X23, X24, X25, X26, X27, X28, X29, X30])
            (reg s XSP - 16) (reg s X30))
          (reg s X0) (reg s XSP - 176)\<rparr>"
  by (simp add: jump_linux_arm64_outgoing_def arm_defs)

lemma jump_linux_arm64_incoming_closed:
  "seq jump_linux_arm64_incoming s =
     s\<lparr>dreg := load_dregs (mem s) (reg s X1) [8, 9, 10, 11, 12, 13, 14, 15] (dreg s),
       reg := (load_regs 8 (mem s) (reg s X1 + 64)
                 [X19, X20, X21, X22, X23, X24, X25, X26, X27, X28, X29, X30]
                 (reg s))
              (X0 := reg s X2,
               X4 := load 8 (mem s) (reg s X1 + 160),
               XSP := reg s X1 + 176),
       pc := Abs (load 8 (mem s) (reg s X1 + 160))\<rparr>"
  by (simp add: jump_linux_arm64_incoming_def arm_defs numeral_plus_word)

lemma jump_linux_arm64_effect:
  "jump_linux_arm64_completed s =
     (let m = mem (seq jump_linux_arm64_outgoing s); t = reg s X1 in
      s\<lparr>dreg := load_dregs m t [8, 9, 10, 11, 12, 13, 14, 15] (dreg s),
        reg := (load_regs 8 m (t + 64)
                 [X19, X20, X21, X22, X23, X24, X25, X26, X27, X28, X29, X30]
                 (reg s))
              (X0 := reg s X2,
               X4 := load 8 m (t + 160),
               XSP := t + 176),
        mem := m,
        pc := Abs (load 8 m (t + 160))\<rparr>)"
  by (simp add: jump_linux_arm64_halves jump_linux_arm64_incoming_closed
      jump_linux_arm64_outgoing_closed Let_def)

lemma jump_linux_arm64_outgoing_frame:
  fixes b :: arm64
  assumes "separate (reg b XSP - 0xb0) 0xa8 t n" and "separate (reg b X0) 8 t n"
    and "unat (t' - t) + k \<le> n" and "0 < k"
  shows "load k (mem (seq jump_linux_arm64_outgoing b)) t' = (load k (mem b) t' :: 'b::len word)"
proof -
  note sep = separate_sub [OF assms(1)] separate_sub [OF assms(2)]
  from assms(3,4) show ?thesis
    by (simp add: jump_linux_arm64_outgoing_closed load_store_separate sep)
qed

lemma make_linux_arm64_result:
  "reg (bthread_make_fcontext_linux_arm64 L s) X0 = (reg s X0 AND - 16) - 0xb0"
  by (simp add: bthread_make_fcontext_linux_arm64_def arm_defs)

lemma make_linux_arm64_mem:
  "mem (bthread_make_fcontext_linux_arm64 L s) =
     (let ctx = (reg s X0 AND - 16) - 0xb0 in
      store 8 (store 8 (mem s)
        (ctx + 0xa0) (reg s X2))
        (ctx + 0x98) (L ''finish''))"
  by (simp add: bthread_make_fcontext_linux_arm64_def arm_defs Let_def)

lemma make_linux_arm64_seeds:
  fixes s :: arm64 and L :: "64 word labels"
  defines "s' \<equiv> bthread_make_fcontext_linux_arm64 L s"
  shows "load 8 (mem s') (reg s' X0 + 0xa0) = reg s X2"
    and "load 8 (mem s') (reg s' X0 + 0x98) = L ''finish''"
  unfolding s'_def
  by (simp_all add: make_linux_arm64_mem make_linux_arm64_result Let_def mem_simps)

lemma make_linux_arm64_frame:
  fixes s :: arm64 and L :: "64 word labels"
  defines "s' \<equiv> bthread_make_fcontext_linux_arm64 L s"
  assumes "\<not> within (reg s' X0) 0xb0 x"
  shows "mem s' x = mem s x"
  using assms
  by (simp add: make_linux_arm64_mem make_linux_arm64_result Let_def store_outside_area)

lemma fresh_linux_arm64:
  fixes m0 s :: arm64 and L :: "64 word labels"
  defines "m1 \<equiv> bthread_make_fcontext_linux_arm64 L m0"
  assumes kept: "same_on (reg m1 X0) 0xb0 (mem s) (mem m1)"
    and to: "reg s X1 = reg m1 X0"
    and sb: "separate (reg s XSP - 0xb0) 0xa8 (reg m1 X0) 0xb0"
    and fb: "separate (reg s X0) 8 (reg m1 X0) 0xb0"
  shows "pc (jump_linux_arm64_completed s) = Abs (reg m0 X2)"
    and "reg (jump_linux_arm64_completed s) X0 = reg s X2"
    and "reg (jump_linux_arm64_completed s) X30 = L ''finish''"
    and "reg (jump_linux_arm64_completed s) XSP = reg m1 X0 + 0xb0"
proof -
  note fr = jump_linux_arm64_outgoing_frame [OF sb fb]
  note ag = same_on_load [OF kept]
  note seeds = make_linux_arm64_seeds [where L = L and s = m0, folded m1_def]
  show "pc (jump_linux_arm64_completed s) = Abs (reg m0 X2)"
    and "reg (jump_linux_arm64_completed s) X0 = reg s X2"
    and "reg (jump_linux_arm64_completed s) X30 = L ''finish''"
    and "reg (jump_linux_arm64_completed s) XSP = reg m1 X0 + 0xb0"
    by (simp_all add: jump_linux_arm64_effect Let_def to fr ag seeds numeral_plus_word)
qed


lemma save_area_ordered:
  fixes top x :: "'a::len word"
  assumes w: "within ((top AND - 16) - of_nat n) n x" and big: "n + 15 \<le> unat top"
  shows "(top AND - 16) - of_nat n \<le> x \<and> x < top"
proof -
  have tl: "unat top < 2 ^ LENGTH('a)" by (rule unsigned_less)
  with big have n15: "n + 15 < 2 ^ LENGTH('a)" by linarith
  then have n: "unat (of_nat n :: 'a word) = n" by (simp add: unat_of_nat)
  have l: "unat (top AND 15) < 16" by (rule unat_low4)
  define al where "al = top AND - 16"
  define ctx where "ctx = al - of_nat n"
  have "top AND 15 \<le> top" by (rule word_and_le2)
  then have "unat (top - (top AND 15)) = unat top - unat (top AND 15)" by (rule unat_sub)
  moreover have "top - (top AND 15) = al"
    using align16_split [of top] by (simp add: al_def algebra_simps)
  ultimately have al: "unat al = unat top - unat (top AND 15)" by simp
  with big l have "n \<le> unat al" by linarith
  then have "of_nat n \<le> al" using n by (simp add: word_le_nat_alt)
  then have "unat (al - of_nat n) = unat al - unat (of_nat n :: 'a word)" by (rule unat_sub)
  then have c: "unat ctx = unat al - n" by (simp add: ctx_def n)
  from w have i: "unat (x - ctx) < n" by (simp add: within_def ctx_def al_def)
  have "x = ctx + (x - ctx)" by simp
  then have "unat x = (unat ctx + unat (x - ctx)) mod 2 ^ LENGTH('a)"
    by (metis unat_word_ariths(1))
  moreover have "unat ctx + unat (x - ctx) < 2 ^ LENGTH('a)"
    using c i al \<open>n \<le> unat al\<close> tl by linarith
  ultimately have x: "unat x = unat ctx + unat (x - ctx)" by simp
  then have 1: "ctx \<le> x" by (simp add: word_le_nat_alt)
  from x c i al \<open>n \<le> unat al\<close> have "unat x < unat top" by linarith
  then have "x < top" by (simp add: word_less_nat_alt)
  with 1 show ?thesis by (simp add: ctx_def al_def)
qed

lemma make_linux_x86_64_area:
  fixes s :: x86_64 and L :: "64 word labels"
  defines "s' \<equiv> bthread_make_fcontext_linux_x86_64 L s"
  shows "reg s' RAX = (reg s RDI AND - 16) - 0x48"
    and "(reg s' RAX + 0x48) AND 15 = 0"
    and "\<forall>x. \<not> within (reg s' RAX) 0x48 x \<longrightarrow> mem s' x = mem s x"
    and "\<forall>x. within (reg s' RAX) 0x48 x \<longrightarrow>
           0 < unat (reg s RDI - x) \<and> unat (reg s RDI - x) \<le> 0x48 + 15"
    and "0x48 + 15 \<le> unat (reg s RDI) \<longrightarrow>
           (\<forall>x. within (reg s' RAX) 0x48 x \<longrightarrow> reg s' RAX \<le> x \<and> x < reg s RDI)"
proof -
  show r: "reg s' RAX = (reg s RDI AND - 16) - 0x48"
    by (simp add: s'_def make_linux_x86_64_result)
  show "(reg s' RAX + 0x48) AND 15 = 0"
    by (simp add: r aligned16)
  show "\<forall>x. \<not> within (reg s' RAX) 0x48 x \<longrightarrow> mem s' x = mem s x"
    using make_linux_x86_64_frame [where s = s and L = L] by (simp add: s'_def)
  show "\<forall>x. within (reg s' RAX) 0x48 x \<longrightarrow>
           0 < unat (reg s RDI - x) \<and> unat (reg s RDI - x) \<le> 0x48 + 15"
    using save_area_below_top [of "reg s RDI" "0x48"] by (simp add: r)
  show "0x48 + 15 \<le> unat (reg s RDI) \<longrightarrow>
           (\<forall>x. within (reg s' RAX) 0x48 x \<longrightarrow> reg s' RAX \<le> x \<and> x < reg s RDI)"
    using save_area_ordered [of "reg s RDI" "0x48"] by (simp add: r)
qed

lemma make_linux_arm64_area:
  fixes s :: arm64 and L :: "64 word labels"
  defines "s' \<equiv> bthread_make_fcontext_linux_arm64 L s"
  shows "reg s' X0 = (reg s X0 AND - 16) - 0xb0"
    and "(reg s' X0 + 0xb0) AND 15 = 0"
    and "\<forall>x. \<not> within (reg s' X0) 0xb0 x \<longrightarrow> mem s' x = mem s x"
    and "\<forall>x. within (reg s' X0) 0xb0 x \<longrightarrow>
           0 < unat (reg s X0 - x) \<and> unat (reg s X0 - x) \<le> 0xb0 + 15"
    and "0xb0 + 15 \<le> unat (reg s X0) \<longrightarrow>
           (\<forall>x. within (reg s' X0) 0xb0 x \<longrightarrow> reg s' X0 \<le> x \<and> x < reg s X0)"
proof -
  show r: "reg s' X0 = (reg s X0 AND - 16) - 0xb0"
    by (simp add: s'_def make_linux_arm64_result)
  show "(reg s' X0 + 0xb0) AND 15 = 0"
    by (simp add: r aligned16)
  show "\<forall>x. \<not> within (reg s' X0) 0xb0 x \<longrightarrow> mem s' x = mem s x"
    using make_linux_arm64_frame [where s = s and L = L] by (simp add: s'_def)
  show "\<forall>x. within (reg s' X0) 0xb0 x \<longrightarrow>
           0 < unat (reg s X0 - x) \<and> unat (reg s X0 - x) \<le> 0xb0 + 15"
    using save_area_below_top [of "reg s X0" "0xb0"] by (simp add: r)
  show "0xb0 + 15 \<le> unat (reg s X0) \<longrightarrow>
           (\<forall>x. within (reg s' X0) 0xb0 x \<longrightarrow> reg s' X0 \<le> x \<and> x < reg s X0)"
    using save_area_ordered [of "reg s X0" "0xb0"] by (simp add: r)
qed

text \<open>
  Claim C10. On linux\_x86\_64 \<^verbatim>\<open>bthread_make_fcontext\<close> returns the stack top rounded down to
  a multiple of 16, less 0x48; on linux\_arm64 less 0xb0. The entry address and the address
  of \<^verbatim>\<open>finish\<close> are at fixed offsets in these bytes, and every byte of memory outside them is
  as it was. Each of these bytes is between 1 and the size of the area plus 15 bytes below the
  stack top, in the arithmetic of addresses; when the stack top is at least that large, they
  lie from the result up to below the stack top.
\<close>

theorem make_context_writes_only_the_save_area:
  fixes s :: x86_64 and u :: arm64 and L K :: "64 word labels"
  shows
    "(let s' = bthread_make_fcontext_linux_x86_64 L s; ctx = reg s' RAX; top = reg s RDI in
       ctx = (top AND - 16) - 0x48 \<and> (ctx + 0x48) AND 15 = 0 \<and>
       load 8 (mem s') (ctx + 0x38) = reg s RDX \<and>
       load 8 (mem s') (ctx + 0x40) = L ''finish'' \<and>
       (\<forall>x. \<not> within ctx 0x48 x \<longrightarrow> mem s' x = mem s x) \<and>
       (\<forall>x. within ctx 0x48 x \<longrightarrow> 0 < unat (top - x) \<and> unat (top - x) \<le> 0x48 + 15) \<and>
       (0x48 + 15 \<le> unat top \<longrightarrow> (\<forall>x. within ctx 0x48 x \<longrightarrow> ctx \<le> x \<and> x < top))) \<and>
     (let u' = bthread_make_fcontext_linux_arm64 K u; ctx = reg u' X0; top = reg u X0 in
       ctx = (top AND - 16) - 0xb0 \<and> (ctx + 0xb0) AND 15 = 0 \<and>
       load 8 (mem u') (ctx + 0xa0) = reg u X2 \<and>
       load 8 (mem u') (ctx + 0x98) = K ''finish'' \<and>
       (\<forall>x. \<not> within ctx 0xb0 x \<longrightarrow> mem u' x = mem u x) \<and>
       (\<forall>x. within ctx 0xb0 x \<longrightarrow> 0 < unat (top - x) \<and> unat (top - x) \<le> 0xb0 + 15) \<and>
       (0xb0 + 15 \<le> unat top \<longrightarrow> (\<forall>x. within ctx 0xb0 x \<longrightarrow> ctx \<le> x \<and> x < top)))"
  unfolding Let_def
  using make_linux_x86_64_area [where s = s and L = L]
    make_linux_x86_64_seeds(1,2) [where s = s and L = L]
    make_linux_arm64_area [where s = u and L = K] make_linux_arm64_seeds [where s = u and L = K]
  by blast

lemma jump_linux_x86_64_runs:
  "bthread_jump_fcontext_linux_x86_64 s =
     (if reg s RCX \<noteq> 0 \<and>
         \<not> mxcsr_accepts s (load 4 (mem (seq jump_linux_x86_64_outgoing s)) (reg s RSI))
      then None else Some (jump_linux_x86_64_completed s))"
proof (cases "reg s RCX = 0")
  case True
  then show ?thesis
    by (simp add: bthread_jump_fcontext_linux_x86_64_def jump_linux_x86_64_completed_def
        jump_linux_x86_64_incoming_def jump_linux_x86_64_outgoing_def instr_defs ok_def
        je_over_option_def)
next
  case False
  then show ?thesis
    by (simp add: bthread_jump_fcontext_linux_x86_64_def jump_linux_x86_64_completed_def
        jump_linux_x86_64_incoming_def jump_linux_x86_64_outgoing_def instr_defs ok_def
        je_over_option_def ldmxcsr_def mxcsr_accepts_def)
qed


lemma jump_linux_x86_64_some:
  assumes "bthread_jump_fcontext_linux_x86_64 s = Some c"
  shows "c = jump_linux_x86_64_completed s"
  using assms by (simp add: jump_linux_x86_64_runs split: if_splits)

lemma jump_linux_x86_64_loaded_mxcsr:
  "reg s RCX \<noteq> 0 \<Longrightarrow>
   load 4 (mem (seq jump_linux_x86_64_outgoing s)) (reg s RSI) =
     mxcsr (jump_linux_x86_64_completed s)"
  by (simp add: jump_linux_x86_64_effect Let_def)

text \<open>
  With a non-zero fourth argument the routine ends in a fault when the word at the target
  has a bit that MXCSR does not implement.
\<close>

lemma jump_linux_x86_64_faults:
  "reg s RCX \<noteq> 0 \<Longrightarrow>
   \<not> mxcsr_accepts s (load 4 (mem (seq jump_linux_x86_64_outgoing s)) (reg s RSI)) \<Longrightarrow>
   bthread_jump_fcontext_linux_x86_64 s = None"
  by (simp add: jump_linux_x86_64_runs)

section \<open>Properties of the context switch\<close>

text \<open>
  Claim C2 (linux\_x86\_64). A context A jumps away in state \<open>a\<close> and its jump completes, in
  \<open>a'\<close>; later a context B, in state \<open>b\<close>, jumps to the handle that A's jump stored in A's
  \<^verbatim>\<open>from\<close> slot. The 64 bytes of A's save area (below A's stack pointer, up to and including
  its return address) were left as A's jump wrote them, and neither \<^verbatim>\<open>from\<close> slot nor B's own
  save area overlaps them. B passes a non-zero fourth argument only if A did (else the slot
  that \<^verbatim>\<open>ldmxcsr\<close> reads holds what was on A's stack before, and the jump can fault), and A's
  MXCSR and x87 control word are values that the registers hold on B's processor. Then B's
  jump completes, in a state with A's \<^verbatim>\<open>rbx\<close>, \<^verbatim>\<open>rbp\<close> and \<^verbatim>\<open>r12\<close> to \<^verbatim>\<open>r15\<close>, A's stack pointer
  as after its call returned, running at A's return address; and when the fourth argument
  is non-zero it has A's MXCSR and x87 control word.
\<close>

theorem jump_round_trip_restores_registers:
  fixes a a' b :: x86_64
  assumes "bthread_jump_fcontext_linux_x86_64 a = Some a'"
    and "separate (reg a RDI) 8 (reg a RSP - 0x38) 0x40"
    and "same_on (reg a RSP - 0x38) 0x40 (mem b) (mem a')"
    and "reg b RSI = load 8 (mem a') (reg a RDI)"
    and "separate (reg b RSP - 0x38) 0x38 (reg a RSP - 0x38) 0x40"
    and "separate (reg b RDI) 8 (reg a RSP - 0x38) 0x40"
    and "reg b RCX \<noteq> 0 \<longrightarrow>
           reg a RCX \<noteq> 0 \<and> mxcsr_accepts b (mxcsr a) \<and> x87_control (fpucw a) = fpucw a"
  shows "\<exists>c. bthread_jump_fcontext_linux_x86_64 b = Some c \<and>
          reg c R12 = reg a R12 \<and> reg c R13 = reg a R13 \<and> reg c R14 = reg a R14 \<and>
          reg c R15 = reg a R15 \<and> reg c RBX = reg a RBX \<and> reg c RBP = reg a RBP \<and>
          reg c RSP = reg a RSP + 8 \<and> pc c = Abs (load 8 (mem a) (reg a RSP)) \<and>
          (reg b RCX \<noteq> 0 \<longrightarrow> mxcsr c = mxcsr a \<and> fpucw c = fpucw a)"
proof -
  let ?c = "jump_linux_x86_64_completed b"
  from assms(1) have a': "a' = jump_linux_x86_64_completed a"
    by (rule jump_linux_x86_64_some)
  note rt = round_trip [OF assms(2) assms(3) [unfolded a'] assms(4) [unfolded a'] assms(5,6)]
  have fp: "mxcsr ?c = mxcsr a \<and> fpucw ?c = fpucw a" if "reg b RCX \<noteq> 0"
    using rt assms(7) that by (simp add: Let_def)
  have "bthread_jump_fcontext_linux_x86_64 b = Some ?c"
  proof (cases "reg b RCX = 0")
    case True
    then show ?thesis by (simp add: jump_linux_x86_64_runs)
  next
    case False
    with assms(7) fp have "mxcsr_accepts b (mxcsr ?c)" by simp
    with False show ?thesis
      by (simp add: jump_linux_x86_64_runs jump_linux_x86_64_loaded_mxcsr)
  qed
  with rt fp show ?thesis by (simp add: Let_def)
qed

lemma load_zero: "load n (\<lambda>_. 0) a = 0"
proof -
  have "le_word (load_bytes (\<lambda>_. 0) a n) = 0"
    by (induction n arbitrary: a) simp_all
  then show ?thesis by (simp add: load_def)
qed

lemma example_x86_64_completes:
  "bthread_jump_fcontext_linux_x86_64 example_x86_64 =
     Some (jump_linux_x86_64_completed example_x86_64)"
proof -
  have f: "reg example_x86_64 RCX \<noteq> 0" by (simp add: example_x86_64_def)
  have "load 4 (mem (seq jump_linux_x86_64_outgoing example_x86_64)) (reg example_x86_64 RSI) =
      (0 :: 32 word)"
    by (simp add: jump_linux_x86_64_outgoing_fp [OF f])
       (simp add: example_x86_64_def mem_simps load_zero)
  then show ?thesis
    by (simp add: jump_linux_x86_64_runs mxcsr_accepts_def)
qed

theorem jump_round_trip_restores_registers_witness:
  "\<exists>c. bthread_jump_fcontext_linux_x86_64 example_back_x86_64 = Some c \<and>
    reg c R12 = 0x12 \<and> reg c R13 = 0x13 \<and> reg c R14 = 0x14 \<and> reg c R15 = 0x15 \<and>
    reg c RBX = 0xb \<and> reg c RBP = 0xc \<and> reg c RSP = 0x7008 \<and> pc c = Abs 0x400123 \<and>
    mxcsr c = 0x1f80 \<and> fpucw c = 0x37f"
proof -
  let ?a' = "jump_linux_x86_64_completed example_x86_64"
  have 1: "separate (reg example_x86_64 RDI) 8 (reg example_x86_64 RSP - 0x38) 0x40"
    by (simp add: example_x86_64_def separate_def)
  have 2: "same_on (reg example_x86_64 RSP - 0x38) 0x40 (mem example_back_x86_64) (mem ?a')"
    by (simp add: example_back_x86_64_def same_on_refl)
  have 3: "reg example_back_x86_64 RSI = load 8 (mem ?a') (reg example_x86_64 RDI)"
    by (simp add: example_back_x86_64_def) (simp add: example_x86_64_def)
  have 4: "separate (reg example_back_x86_64 RSP - 0x38) 0x38 (reg example_x86_64 RSP - 0x38) 0x40"
    by (simp add: example_back_x86_64_def) (simp add: example_x86_64_def separate_def)
  have 5: "separate (reg example_back_x86_64 RDI) 8 (reg example_x86_64 RSP - 0x38) 0x40"
    by (simp add: example_back_x86_64_def) (simp add: example_x86_64_def separate_def)
  have m: "mxcsr_mask example_back_x86_64 = 0xffff"
    by (simp add: example_back_x86_64_def jump_linux_x86_64_effect Let_def)
       (simp add: example_x86_64_def)
  have 6: "reg example_back_x86_64 RCX \<noteq> 0 \<longrightarrow>
      reg example_x86_64 RCX \<noteq> 0 \<and> mxcsr_accepts example_back_x86_64 (mxcsr example_x86_64) \<and>
      x87_control (fpucw example_x86_64) = fpucw example_x86_64"
    by (simp add: mxcsr_accepts_def m x87_control_def) (simp add: example_x86_64_def)
  have r: "reg example_x86_64 R12 = 0x12" "reg example_x86_64 R13 = 0x13"
    "reg example_x86_64 R14 = 0x14" "reg example_x86_64 R15 = 0x15"
    "reg example_x86_64 RBX = 0xb" "reg example_x86_64 RBP = 0xc"
    "reg example_x86_64 RSP = 0x7000" "reg example_x86_64 RCX = 1"
    "mxcsr example_x86_64 = 0x1f80" "fpucw example_x86_64 = 0x37f"
    "load 8 (mem example_x86_64) 0x7000 = (0x400123 :: 64 word)"
    by (simp_all add: example_x86_64_def load_store_same)
  have b: "reg example_back_x86_64 RCX = 1"
    by (simp add: example_back_x86_64_def)
  from jump_round_trip_restores_registers [OF example_x86_64_completes 1 2 3 4 5 6] show ?thesis
    by (simp add: r b)
qed

text \<open>
  Claim C5 (linux\_x86\_64). A jump into a context that \<^verbatim>\<open>bthread_make_fcontext\<close> made and
  nobody has touched completes and starts the entry function with the third argument of the
  jump in \<^verbatim>\<open>rdi\<close>, its first parameter. A jump back into a suspended context (as in claim C2)
  completes and resumes it at the return address of its own call, with the third argument
  of the jump in \<^verbatim>\<open>rax\<close>, the value that call returns. A jump with a non-zero fourth argument
  loads MXCSR from the target: from the word that \<^verbatim>\<open>bthread_make_fcontext\<close> stored, or from
  the word that the suspended context stored when its own fourth argument was non-zero;
  that word is one that \<^verbatim>\<open>ldmxcsr\<close> accepts.
\<close>

theorem transfer_value_is_delivered:
  fixes m0 s a a' b :: x86_64 and L :: "64 word labels"
  assumes "same_on (reg (bthread_make_fcontext_linux_x86_64 L m0) RAX) 0x48
             (mem s) (mem (bthread_make_fcontext_linux_x86_64 L m0))"
    and "reg s RSI = reg (bthread_make_fcontext_linux_x86_64 L m0) RAX"
    and "separate (reg s RSP - 0x38) 0x38 (reg (bthread_make_fcontext_linux_x86_64 L m0) RAX) 0x48"
    and "separate (reg s RDI) 8 (reg (bthread_make_fcontext_linux_x86_64 L m0) RAX) 0x48"
    and "reg s RCX \<noteq> 0 \<longrightarrow> mxcsr_accepts s (mxcsr m0)"
    and "bthread_jump_fcontext_linux_x86_64 a = Some a'"
    and "separate (reg a RDI) 8 (reg a RSP - 0x38) 0x40"
    and "same_on (reg a RSP - 0x38) 0x40 (mem b) (mem a')"
    and "reg b RSI = load 8 (mem a') (reg a RDI)"
    and "separate (reg b RSP - 0x38) 0x38 (reg a RSP - 0x38) 0x40"
    and "separate (reg b RDI) 8 (reg a RSP - 0x38) 0x40"
    and "reg b RCX \<noteq> 0 \<longrightarrow> reg a RCX \<noteq> 0 \<and> mxcsr_accepts b (mxcsr a)"
  shows "(\<exists>c. bthread_jump_fcontext_linux_x86_64 s = Some c \<and>
            pc c = Abs (reg m0 RDX) \<and> reg c RDI = reg s RDX) \<and>
         (\<exists>c. bthread_jump_fcontext_linux_x86_64 b = Some c \<and>
            pc c = Abs (load 8 (mem a) (reg a RSP)) \<and> reg c RAX = reg b RDX)"
proof -
  let ?c = "jump_linux_x86_64_completed s" and ?d = "jump_linux_x86_64_completed b"
  note fr = fresh_linux_x86_64 [OF assms(1-4)]
  have "bthread_jump_fcontext_linux_x86_64 s = Some ?c"
    using assms(5) fr(6)
    by (cases "reg s RCX = 0")
      (simp_all add: jump_linux_x86_64_runs jump_linux_x86_64_loaded_mxcsr)
  with fr(1,2) have fresh: "\<exists>c. bthread_jump_fcontext_linux_x86_64 s = Some c \<and>
      pc c = Abs (reg m0 RDX) \<and> reg c RDI = reg s RDX"
    by simp
  from assms(6) have a': "a' = jump_linux_x86_64_completed a"
    by (rule jump_linux_x86_64_some)
  note rt = round_trip [OF assms(7) assms(8) [unfolded a'] assms(9) [unfolded a'] assms(10,11)]
  have "bthread_jump_fcontext_linux_x86_64 b = Some ?d"
  proof (cases "reg b RCX = 0")
    case True
    then show ?thesis by (simp add: jump_linux_x86_64_runs)
  next
    case False
    with assms(12) rt have "mxcsr_accepts b (mxcsr ?d)" by (simp add: Let_def)
    with False show ?thesis
      by (simp add: jump_linux_x86_64_runs jump_linux_x86_64_loaded_mxcsr)
  qed
  with rt have "\<exists>c. bthread_jump_fcontext_linux_x86_64 b = Some c \<and>
      pc c = Abs (load 8 (mem a) (reg a RSP)) \<and> reg c RAX = reg b RDX"
    by (simp add: Let_def)
  with fresh show ?thesis by simp
qed

lemma example_make_x86_64_result:
  "reg (bthread_make_fcontext_linux_x86_64 example_labels example_make_x86_64) RAX = 0xffb8"
  by (simp add: make_linux_x86_64_result example_make_x86_64_def example_x86_64_def)

theorem transfer_value_is_delivered_witness:
  "(\<exists>c. bthread_jump_fcontext_linux_x86_64 example_enter_x86_64 = Some c \<and>
      pc c = Abs 0x400800 \<and> reg c RDI = 0x2a) \<and>
   (\<exists>c. bthread_jump_fcontext_linux_x86_64 example_back_x86_64 = Some c \<and>
      pc c = Abs 0x400123 \<and> reg c RAX = 0x99)"
proof -
  let ?m1 = "bthread_make_fcontext_linux_x86_64 example_labels example_make_x86_64"
  let ?a' = "jump_linux_x86_64_completed example_x86_64"
  have f1: "same_on (reg ?m1 RAX) 0x48 (mem example_enter_x86_64) (mem ?m1)"
    by (simp add: example_enter_x86_64_def same_on_refl)
  have f2: "reg example_enter_x86_64 RSI = reg ?m1 RAX"
    by (simp add: example_enter_x86_64_def)
  have f3: "separate (reg example_enter_x86_64 RSP - 0x38) 0x38 (reg ?m1 RAX) 0x48"
    unfolding example_make_x86_64_result
    by (simp add: example_enter_x86_64_def) (simp add: example_x86_64_def separate_def)
  have f4: "separate (reg example_enter_x86_64 RDI) 8 (reg ?m1 RAX) 0x48"
    unfolding example_make_x86_64_result
    by (simp add: example_enter_x86_64_def) (simp add: example_x86_64_def separate_def)
  have f5: "reg example_enter_x86_64 RCX \<noteq> 0 \<longrightarrow>
      mxcsr_accepts example_enter_x86_64 (mxcsr example_make_x86_64)"
    by (simp add: mxcsr_accepts_def example_enter_x86_64_def
        bthread_make_fcontext_linux_x86_64_def instr_defs)
       (simp add: example_make_x86_64_def example_x86_64_def)
  have 1: "separate (reg example_x86_64 RDI) 8 (reg example_x86_64 RSP - 0x38) 0x40"
    by (simp add: example_x86_64_def separate_def)
  have 2: "same_on (reg example_x86_64 RSP - 0x38) 0x40 (mem example_back_x86_64) (mem ?a')"
    by (simp add: example_back_x86_64_def same_on_refl)
  have 3: "reg example_back_x86_64 RSI = load 8 (mem ?a') (reg example_x86_64 RDI)"
    by (simp add: example_back_x86_64_def) (simp add: example_x86_64_def)
  have 4: "separate (reg example_back_x86_64 RSP - 0x38) 0x38 (reg example_x86_64 RSP - 0x38) 0x40"
    by (simp add: example_back_x86_64_def) (simp add: example_x86_64_def separate_def)
  have 5: "separate (reg example_back_x86_64 RDI) 8 (reg example_x86_64 RSP - 0x38) 0x40"
    by (simp add: example_back_x86_64_def) (simp add: example_x86_64_def separate_def)
  have m: "mxcsr_mask example_back_x86_64 = 0xffff"
    by (simp add: example_back_x86_64_def jump_linux_x86_64_effect Let_def)
       (simp add: example_x86_64_def)
  have 6: "reg example_back_x86_64 RCX \<noteq> 0 \<longrightarrow>
      reg example_x86_64 RCX \<noteq> 0 \<and> mxcsr_accepts example_back_x86_64 (mxcsr example_x86_64)"
    by (simp add: mxcsr_accepts_def m) (simp add: example_x86_64_def)
  have r: "reg example_make_x86_64 RDX = 0x400800" "reg example_enter_x86_64 RDX = 0x2a"
    "reg example_x86_64 RSP = 0x7000" "reg example_back_x86_64 RDX = 0x99"
    "load 8 (mem example_x86_64) 0x7000 = (0x400123 :: 64 word)"
    by (simp_all add: example_make_x86_64_def example_enter_x86_64_def example_back_x86_64_def
        example_x86_64_def load_store_same)
  from transfer_value_is_delivered [OF f1 f2 f3 f4 f5 example_x86_64_completes 1 2 3 4 5 6]
  show ?thesis
    by (simp add: r)
qed

theorem make_context_writes_only_the_save_area_witness:
  "(let s' = bthread_make_fcontext_linux_x86_64 example_labels example_make_x86_64 in
     reg s' RAX = 0xffb8 \<and>
     load 8 (mem s') 0xfff0 = (0x400800 :: 64 word) \<and>
     load 8 (mem s') 0xfff8 = (0x401000 :: 64 word) \<and>
     mem s' 0x10000 = mem example_make_x86_64 0x10000 \<and>
     mem s' 0xffb7 = mem example_make_x86_64 0xffb7 \<and>
     (0xffb8 :: 64 word) \<le> 0xfff8 \<and> (0xfff8 :: 64 word) < 0x10008) \<and>
   (let u' = bthread_make_fcontext_linux_arm64 example_labels example_make_arm64 in
     reg u' X0 = 0xff50 \<and>
     load 8 (mem u') 0xfff0 = (0x400800 :: 64 word) \<and>
     load 8 (mem u') 0xffe8 = (0x401000 :: 64 word) \<and>
     mem u' 0x10000 = mem example_make_arm64 0x10000 \<and>
     mem u' 0xff4f = mem example_make_arm64 0xff4f)"
proof -
  let ?s = "example_make_x86_64" and ?u = "example_make_arm64"
  let ?L = "example_labels :: 64 word labels"
  have s: "reg ?s RDI = 0x10008" "reg ?s RDX = 0x400800"
    by (simp_all add: example_make_x86_64_def example_x86_64_def)
  have u: "reg ?u X0 = 0x10008" "reg ?u X2 = 0x400800"
    by (simp_all add: example_make_arm64_def example_arm64_def)
  have l: "?L ''finish'' = 0x401000" by (simp add: example_labels_def)
  have w: "\<not> within (0xffb8 :: 64 word) 0x48 0x10000" "\<not> within (0xffb8 :: 64 word) 0x48 0xffb7"
    "within (0xffb8 :: 64 word) 0x48 0xfff8"
    "\<not> within (0xff50 :: 64 word) 0xb0 0x10000" "\<not> within (0xff50 :: 64 word) 0xb0 0xff4f"
    by (simp_all add: within_def unsigned_minus_1_eq_mask mask_eq_exp_minus_1)
  from make_context_writes_only_the_save_area [of ?L ?s ?L ?u] show ?thesis
    unfolding Let_def s u l
    by (elim conjE) (use w in simp)
qed

lemma finish_linux_x86_64_exits:
  "pc (finish_linux_x86_64 L s) = Extern ''_exit@PLT''"
  "reg (finish_linux_x86_64 L s) RDI = 0"
  by (simp_all add: finish_linux_x86_64_def instr_defs)

lemma finish_apple_x86_64_exits:
  "pc (finish_apple_x86_64 L s) = Extern ''__exit''"
  "reg (finish_apple_x86_64 L s) RDI = 0"
  by (simp_all add: finish_apple_x86_64_def instr_defs)

lemma finish_linux_i386_exits:
  "pc (finish_linux_i386 L s) = Extern ''_exit@PLT''"
  "load 4 (mem (finish_linux_i386 L s)) (reg (finish_linux_i386 L s) ESP + 4) = (0 :: 32 word)"
  by (simp_all add: finish_linux_i386_def instr_defs mem_simps)

lemma finish_apple_i386_exits:
  "pc (finish_apple_i386 L s) = Extern ''__exit''"
  "load 4 (mem (finish_apple_i386 L s)) (reg (finish_apple_i386 L s) ESP + 4) = (0 :: 32 word)"
  by (simp_all add: finish_apple_i386_def instr_defs mem_simps)

lemma finish_windows_i386_exits:
  "pc (finish_windows_i386 L s) = Extern ''_exit''"
  "load 4 (mem (finish_windows_i386 L s)) (reg (finish_windows_i386 L s) ESP + 4) = (0 :: 32 word)"
  by (simp_all add: finish_windows_i386_def instr_defs mem_simps)

lemma finish_linux_arm32_exits:
  "pc (finish_linux_arm32 L s) = Extern ''_exit@PLT''"
  "reg (finish_linux_arm32 L s) A1 = 0"
  by (simp_all add: finish_linux_arm32_def arm_defs)

lemma finish_linux_arm64_exits:
  "pc (finish_linux_arm64 L s) = Extern ''_exit''"
  "reg (finish_linux_arm64 L s) X0 = 0"
  by (simp_all add: finish_linux_arm64_def arm_defs)

lemma finish_windows_x86_64_calls_0x63:
  "pc (finish_windows_x86_64 L s) = Abs 0x63"
  "reg (finish_windows_x86_64 L s) RCX = 0"
  "reg (finish_windows_x86_64 L s) RSP = reg s RSP - 8"
  "load 8 (mem (finish_windows_x86_64 L s)) (reg s RSP - 8) = L ''finish.hlt''"
  by (simp_all add: finish_windows_x86_64_def instr_defs mem_simps)

text \<open>
  Claim C9. The trampoline \<^verbatim>\<open>finish\<close> of each variant, from any state: on linux\_x86\_64 and
  apple\_x86\_64 it clears \<^verbatim>\<open>rdi\<close>, on linux\_arm32 and linux\_arm64 the first argument
  register, on the three i386 variants it stores 0 in the argument slot above the return
  address, and then it calls the symbol \<^verbatim>\<open>_exit@PLT\<close>, \<^verbatim>\<open>__exit\<close> or \<^verbatim>\<open>_exit\<close>. On
  windows\_x86\_64 it clears \<^verbatim>\<open>rcx\<close> and calls the absolute address 0x63, not a symbol: this
  variant does not call \<^verbatim>\<open>_exit\<close>.
\<close>

theorem finish_calls_exit_except_on_windows_x86_64:
  "(pc (finish_linux_x86_64 L1 s1) = Extern ''_exit@PLT'' \<and> reg (finish_linux_x86_64 L1 s1) RDI = 0) \<and>
   (pc (finish_apple_x86_64 L2 s2) = Extern ''__exit'' \<and> reg (finish_apple_x86_64 L2 s2) RDI = 0) \<and>
   (pc (finish_linux_i386 L3 s3) = Extern ''_exit@PLT'' \<and>
    load 4 (mem (finish_linux_i386 L3 s3)) (reg (finish_linux_i386 L3 s3) ESP + 4) = (0 :: 32 word)) \<and>
   (pc (finish_apple_i386 L4 s4) = Extern ''__exit'' \<and>
    load 4 (mem (finish_apple_i386 L4 s4)) (reg (finish_apple_i386 L4 s4) ESP + 4) = (0 :: 32 word)) \<and>
   (pc (finish_windows_i386 L5 s5) = Extern ''_exit'' \<and>
    load 4 (mem (finish_windows_i386 L5 s5)) (reg (finish_windows_i386 L5 s5) ESP + 4) = (0 :: 32 word)) \<and>
   (pc (finish_linux_arm32 L6 s6) = Extern ''_exit@PLT'' \<and> reg (finish_linux_arm32 L6 s6) A1 = 0) \<and>
   (pc (finish_linux_arm64 L7 s7) = Extern ''_exit'' \<and> reg (finish_linux_arm64 L7 s7) X0 = 0) \<and>
   (pc (finish_windows_x86_64 L8 s8) = Abs 0x63 \<and> reg (finish_windows_x86_64 L8 s8) RCX = 0 \<and>
    (\<forall>name. pc (finish_windows_x86_64 L8 s8) \<noteq> Extern name))"
  by (simp only: finish_linux_x86_64_exits finish_apple_x86_64_exits finish_linux_i386_exits
      finish_apple_i386_exits finish_windows_i386_exits finish_linux_arm32_exits
      finish_linux_arm64_exits finish_windows_x86_64_calls_0x63 target.distinct simp_thms)









lemma jump_linux_i386_halves:
  "jump_linux_i386_completed s =
     seq jump_linux_i386_incoming (seq jump_linux_i386_outgoing s)"
  by (simp add: jump_linux_i386_completed_def)



lemma jump_linux_arm32_halves:
  "jump_linux_arm32_completed s =
     seq jump_linux_arm32_incoming (seq jump_linux_arm32_outgoing s)"
  by (simp add: jump_linux_arm32_completed_def)




lemma jump_linux_i386_outgoing_nofp:
  "load 4 (mem s) (reg s ESP + 16) = (0 :: 32 word) \<Longrightarrow>
   seq jump_linux_i386_outgoing s =
     s\<lparr>zf := True,
       reg := (reg s)(ECX := 0, ESP := reg s ESP - 24, EAX := load 4 (mem s) (reg s ESP + 4)),
       mem :=
         store 4
          (store 4 (store 4 (store 4 (store 4 (mem s)
             (reg s ESP - 4) (reg s EBP))
             (reg s ESP - 8) (reg s EBX))
             (reg s ESP - 12) (reg s ESI))
             (reg s ESP - 16) (reg s EDI))
          (load 4 (mem s) (reg s ESP + 4)) (reg s ESP - 24)\<rparr>"
  by (simp add: jump_linux_i386_outgoing_def instr_defs mem_simps)

lemma jump_linux_i386_outgoing_fp:
  "load 4 (mem s) (reg s ESP + 16) \<noteq> (0 :: 32 word) \<Longrightarrow>
   seq jump_linux_i386_outgoing s =
     s\<lparr>zf := False,
       reg := (reg s)(ECX := load 4 (mem s) (reg s ESP + 16), ESP := reg s ESP - 24,
                      EAX := load 4 (mem s) (reg s ESP + 4)),
       mem :=
         store 4
          (store 2 (store 4
          (store 4 (store 4 (store 4 (store 4 (mem s)
             (reg s ESP - 4) (reg s EBP))
             (reg s ESP - 8) (reg s EBX))
             (reg s ESP - 12) (reg s ESI))
             (reg s ESP - 16) (reg s EDI))
             (reg s ESP - 24) (mxcsr s))
             (reg s ESP - 20) (fpucw s))
          (load 4 (mem s) (reg s ESP + 4)) (reg s ESP - 24)\<rparr>"
  by (simp add: jump_linux_i386_outgoing_def instr_defs mem_simps)

lemma jump_linux_i386_incoming_nofp:
  "reg s ECX = 0 \<Longrightarrow>
   seq jump_linux_i386_incoming s =
     (let t = load 4 (mem s) (reg s ESP + 32); v = load 4 (mem s) (reg s ESP + 36) in
      s\<lparr>zf := True,
        reg := (reg s)
          (EAX := v,
           EDI := load 4 (mem s) (t + 8),
           ESI := load 4 (mem s) (t + 12),
           EBX := load 4 (mem s) (t + 16),
           EBP := load 4 (mem s) (t + 20),
           EDX := load 4 (mem s) (t + 24),
           ESP := t + 28),
        mem := store 4 (mem s) (t + 32) v,
        pc := Abs (load 4 (mem s) (t + 24))\<rparr>)"
  by (simp add: jump_linux_i386_incoming_def instr_defs numeral_plus_word Let_def)

lemma jump_linux_i386_incoming_fp:
  "reg s ECX \<noteq> 0 \<Longrightarrow>
   seq jump_linux_i386_incoming s =
     (let t = load 4 (mem s) (reg s ESP + 32); v = load 4 (mem s) (reg s ESP + 36) in
      s\<lparr>zf := False,
        mxcsr := load 4 (mem s) t,
        fpucw := x87_control (load 2 (mem s) (t + 4)),
        reg := (reg s)
          (EAX := v,
           EDI := load 4 (mem s) (t + 8),
           ESI := load 4 (mem s) (t + 12),
           EBX := load 4 (mem s) (t + 16),
           EBP := load 4 (mem s) (t + 20),
           EDX := load 4 (mem s) (t + 24),
           ESP := t + 28),
        mem := store 4 (mem s) (t + 32) v,
        pc := Abs (load 4 (mem s) (t + 24))\<rparr>)"
  by (simp add: jump_linux_i386_incoming_def instr_defs numeral_plus_word Let_def)

lemma jump_linux_i386_outgoing_shape:
  "seq jump_linux_i386_outgoing s =
     s\<lparr>zf := (load 4 (mem s) (reg s ESP + 16) = (0 :: 32 word)),
       reg := (reg s)(ECX := load 4 (mem s) (reg s ESP + 16), ESP := reg s ESP - 24,
                      EAX := load 4 (mem s) (reg s ESP + 4)),
       mem := mem (seq jump_linux_i386_outgoing s)\<rparr>"
  by (cases "load 4 (mem s) (reg s ESP + 16) = (0 :: 32 word)")
    (simp_all add: jump_linux_i386_outgoing_nofp jump_linux_i386_outgoing_fp)

text \<open>
  The state after the whole routine, from the memory \<open>m\<close> at the switch of stacks: \<open>t\<close> is
  the target and \<open>v\<close> the value, as the routine reads them from its arguments there.
\<close>

lemma jump_linux_i386_effect:
  "jump_linux_i386_completed s =
     (let f = load 4 (mem s) (reg s ESP + 16);
          m = mem (seq jump_linux_i386_outgoing s);
          t = load 4 m (reg s ESP + 8); v = load 4 m (reg s ESP + 12) in
      s\<lparr>zf := (f = 0),
        mxcsr := (if f = 0 then mxcsr s else load 4 m t),
        fpucw := (if f = 0 then fpucw s else x87_control (load 2 m (t + 4))),
        reg := (reg s)
          (ECX := f,
           EAX := v,
           EDI := load 4 m (t + 8),
           ESI := load 4 m (t + 12),
           EBX := load 4 m (t + 16),
           EBP := load 4 m (t + 20),
           EDX := load 4 m (t + 24),
           ESP := t + 28),
        mem := store 4 m (t + 32) v,
        pc := Abs (load 4 m (t + 24))\<rparr>)"
proof -
  define m where "m = mem (seq jump_linux_i386_outgoing s)"
  define u where "u = seq jump_linux_i386_outgoing s"
  have u: "u = s\<lparr>zf := (load 4 (mem s) (reg s ESP + 16) = (0 :: 32 word)),
       reg := (reg s)(ECX := load 4 (mem s) (reg s ESP + 16), ESP := reg s ESP - 24,
                      EAX := load 4 (mem s) (reg s ESP + 4)),
       mem := m\<rparr>"
    unfolding u_def m_def by (rule jump_linux_i386_outgoing_shape)
  have j: "jump_linux_i386_completed s = seq jump_linux_i386_incoming u"
    by (simp add: jump_linux_i386_halves u_def)
  show ?thesis
  proof (cases "load 4 (mem s) (reg s ESP + 16) = (0 :: 32 word)")
    case True
    then have "reg u ECX = 0" by (simp add: u)
    from jump_linux_i386_incoming_nofp [OF this] True show ?thesis
      unfolding j m_def [symmetric] by (simp add: u Let_def numeral_plus_word)
  next
    case False
    then have "reg u ECX \<noteq> 0" by (simp add: u)
    from jump_linux_i386_incoming_fp [OF this] False show ?thesis
      unfolding j m_def [symmetric] by (simp add: u Let_def numeral_plus_word)
  qed
qed


lemma make_linux_i386_result:
  "reg (bthread_make_fcontext_linux_i386 L s) EAX =
     ((load 4 (mem s) (reg s ESP + 4) - 8) AND - 16) - 0x20"
  by (simp add: bthread_make_fcontext_linux_i386_def instr_defs)

lemma make_linux_i386_mem:
  "mem (bthread_make_fcontext_linux_i386 L s) =
     (let ctx = ((load 4 (mem s) (reg s ESP + 4) - 8) AND - 16) - 0x20 in
      store 4 (store 4 (store 2 (store 4 (store 4 (mem s)
        (ctx + 0x18) (load 4 (mem s) (reg s ESP + 12) :: 32 word))
        ctx (mxcsr s))
        (ctx + 0x4) (fpucw s))
        (reg s ESP - 4) (L ''make.1''))
        (ctx + 0x1c) (L ''finish''))"
  by (simp add: bthread_make_fcontext_linux_i386_def instr_defs Let_def mem_simps)

lemma make_linux_i386_seeds:
  fixes s :: i386 and L :: "32 word labels"
  defines "s' \<equiv> bthread_make_fcontext_linux_i386 L s"
  assumes st: "separate (reg s ESP - 4) 4 (reg s' EAX) 0x20"
  shows "load 4 (mem s') (reg s' EAX + 0x18) = (load 4 (mem s) (reg s ESP + 12) :: 32 word)"
    and "load 4 (mem s') (reg s' EAX + 0x1c) = L ''finish''"
  using separate_sub [OF st] unfolding s'_def
  by (simp_all add: make_linux_i386_mem make_linux_i386_result Let_def mem_simps)

lemma make_apple_i386_is_linux:
  "bthread_make_fcontext_apple_i386 = bthread_make_fcontext_linux_i386"
  by (rule ext) (simp add: bthread_make_fcontext_apple_i386_def bthread_make_fcontext_linux_i386_def)

lemma jump_linux_i386_outgoing_frame:
  fixes b :: i386
  assumes "separate (reg b ESP - 24) 24 t n"
    and "separate (load 4 (mem b) (reg b ESP + 4)) 4 t n"
    and "unat (t' - t) + k \<le> n" and "0 < k"
  shows "load k (mem (seq jump_linux_i386_outgoing b)) t' = (load k (mem b) t' :: 'b::len word)"
proof -
  note sep = separate_sub [OF assms(1)] separate_sub [OF assms(2)]
  from assms(3,4) show ?thesis
    by (cases "load 4 (mem b) (reg b ESP + 16) = (0 :: 32 word)")
      (simp_all add: jump_linux_i386_outgoing_nofp jump_linux_i386_outgoing_fp
        load_store_separate sep)
qed

lemma fresh_linux_i386:
  fixes m0 s :: i386 and L :: "32 word labels"
  defines "m1 \<equiv> bthread_make_fcontext_linux_i386 L m0"
  defines "c \<equiv> jump_linux_i386_completed s"
  assumes st: "separate (reg m0 ESP - 4) 4 (reg m1 EAX) 0x20"
    and kept: "same_on (reg m1 EAX) 0x20 (mem s) (mem m1)"
    and to: "load 4 (mem s) (reg s ESP + 8) = reg m1 EAX"
    and sb: "separate (reg s ESP - 24) 24 (reg m1 EAX) 0x20"
    and fb: "separate (load 4 (mem s) (reg s ESP + 4)) 4 (reg m1 EAX) 0x20"
    and fargs: "separate (load 4 (mem s) (reg s ESP + 4)) 4 (reg s ESP + 8) 8"
  shows "pc c = Abs (load 4 (mem m0) (reg m0 ESP + 12))"
    and "reg c ESP = reg m1 EAX + 0x1c"
    and "load 4 (mem c) (reg c ESP) = L ''finish''"
    and "load 4 (mem c) (reg c ESP + 4) = (load 4 (mem s) (reg s ESP + 12) :: 32 word)"
    and "reg c EAX = load 4 (mem s) (reg s ESP + 12)"
proof -
  have pa: "separate (reg s ESP - 24) 24 (reg s ESP + 8) 8"
    by (simp add: separate_const)
  note fr = jump_linux_i386_outgoing_frame [OF sb fb]
  note fr_args = jump_linux_i386_outgoing_frame [OF pa fargs]
  note ag = same_on_load [OF kept]
  note seeds = make_linux_i386_seeds [where L = L and s = m0, folded m1_def, OF st]
  have t: "load 4 (mem (seq jump_linux_i386_outgoing s)) (reg s ESP + 8) = reg m1 EAX"
    by (simp add: fr_args to)
  have v: "load 4 (mem (seq jump_linux_i386_outgoing s)) (reg s ESP + 12) =
      (load 4 (mem s) (reg s ESP + 12) :: 32 word)"
    by (simp add: fr_args)
  show "pc c = Abs (load 4 (mem m0) (reg m0 ESP + 12))"
    and "reg c ESP = reg m1 EAX + 0x1c"
    and "load 4 (mem c) (reg c ESP) = L ''finish''"
    and "load 4 (mem c) (reg c ESP + 4) = (load 4 (mem s) (reg s ESP + 12) :: 32 word)"
    and "reg c EAX = load 4 (mem s) (reg s ESP + 12)"
    unfolding c_def
    by (simp_all add: jump_linux_i386_effect Let_def t v fr ag seeds mem_simps)
qed

lemma jump_linux_arm32_outgoing_nofp:
  "reg s A4 = 0 \<Longrightarrow>
   seq jump_linux_arm32_outgoing s =
     s\<lparr>reg := (reg s)(SP := reg s SP - 104), zf := True,
       mem :=
         store 4
          (store_regs 4 (reg s) (store 4 (mem s) (reg s SP - 4) (reg s LR))
             (reg s SP - 40) [V1, V2, V3, V4, V5, V6, V7, V8, LR])
          (reg s A1) (reg s SP - 104)\<rparr>"
  by (simp add: jump_linux_arm32_outgoing_def arm_defs)

lemma jump_linux_arm32_outgoing_fp:
  "reg s A4 \<noteq> 0 \<Longrightarrow>
   seq jump_linux_arm32_outgoing s =
     s\<lparr>reg := (reg s)(SP := reg s SP - 104), zf := False,
       mem :=
         store 4
          (store_dregs (dreg s)
            (store_regs 4 (reg s) (store 4 (mem s) (reg s SP - 4) (reg s LR))
               (reg s SP - 40) [V1, V2, V3, V4, V5, V6, V7, V8, LR])
            (reg s SP - 104) [8, 9, 10, 11, 12, 13, 14, 15])
          (reg s A1) (reg s SP - 104)\<rparr>"
  by (simp add: jump_linux_arm32_outgoing_def arm_defs)

lemma jump_linux_arm32_incoming_nofp:
  "reg s A4 = 0 \<Longrightarrow>
   seq jump_linux_arm32_incoming s =
     s\<lparr>zf := True,
       reg := (load_regs 4 (mem s) (reg s A2 + 64) [V1, V2, V3, V4, V5, V6, V7, V8, LR]
                ((reg s)(A1 := reg s A3)))
              (SP := reg s A2 + 104),
       pc := Abs (load 4 (mem s) (reg s A2 + 100))\<rparr>"
  by (simp add: jump_linux_arm32_incoming_def arm_defs numeral_plus_word)

lemma jump_linux_arm32_incoming_fp:
  "reg s A4 \<noteq> 0 \<Longrightarrow>
   seq jump_linux_arm32_incoming s =
     s\<lparr>zf := False,
       dreg := load_dregs (mem s) (reg s A2) [8, 9, 10, 11, 12, 13, 14, 15] (dreg s),
       reg := (load_regs 4 (mem s) (reg s A2 + 64) [V1, V2, V3, V4, V5, V6, V7, V8, LR]
                ((reg s)(A1 := reg s A3)))
              (SP := reg s A2 + 104),
       pc := Abs (load 4 (mem s) (reg s A2 + 100))\<rparr>"
  by (simp add: jump_linux_arm32_incoming_def arm_defs numeral_plus_word)

lemma jump_linux_arm32_effect:
  "jump_linux_arm32_completed s =
     (let m = mem (seq jump_linux_arm32_outgoing s); t = reg s A2 in
      s\<lparr>zf := (reg s A4 = 0),
        dreg := (if reg s A4 = 0 then dreg s
                 else load_dregs m t [8, 9, 10, 11, 12, 13, 14, 15] (dreg s)),
        reg := (load_regs 4 m (t + 64) [V1, V2, V3, V4, V5, V6, V7, V8, LR]
                 ((reg s)(A1 := reg s A3)))
               (SP := t + 104),
        mem := m,
        pc := Abs (load 4 m (t + 100))\<rparr>)"
proof (cases "reg s A4 = 0")
  case True
  then show ?thesis
    by (simp add: jump_linux_arm32_halves jump_linux_arm32_incoming_nofp
        jump_linux_arm32_outgoing_nofp Let_def)
next
  case False
  then show ?thesis
    by (simp add: jump_linux_arm32_halves jump_linux_arm32_incoming_fp
        jump_linux_arm32_outgoing_fp Let_def)
qed

lemma jump_linux_arm32_outgoing_frame:
  fixes b :: arm32
  assumes "separate (reg b SP - 104) 104 t n" and "separate (reg b A1) 4 t n"
    and "unat (t' - t) + k \<le> n" and "0 < k"
  shows "load k (mem (seq jump_linux_arm32_outgoing b)) t' = (load k (mem b) t' :: 'b::len word)"
proof -
  note sep = separate_sub [OF assms(1)] separate_sub [OF assms(2)]
  from assms(3,4) show ?thesis
    by (cases "reg b A4 = 0")
      (simp_all add: jump_linux_arm32_outgoing_nofp jump_linux_arm32_outgoing_fp
        load_store_separate sep)
qed


lemma make_linux_arm32_result:
  "reg (bthread_make_fcontext_linux_arm32 L s) A1 = (reg s A1 AND NOT 15) - 104"
  by (simp add: bthread_make_fcontext_linux_arm32_def arm_defs)

lemma make_linux_arm32_mem:
  "mem (bthread_make_fcontext_linux_arm32 L s) =
     (let ctx = (reg s A1 AND NOT 15) - 104 in
      store 4 (store 4 (mem s)
        (ctx + 100) (reg s A3))
        (ctx + 96) (L ''finish''))"
  by (simp add: bthread_make_fcontext_linux_arm32_def arm_defs Let_def)

lemma make_linux_arm32_seeds:
  fixes s :: arm32 and L :: "32 word labels"
  defines "s' \<equiv> bthread_make_fcontext_linux_arm32 L s"
  shows "load 4 (mem s') (reg s' A1 + 100) = reg s A3"
    and "load 4 (mem s') (reg s' A1 + 96) = L ''finish''"
  unfolding s'_def
  by (simp_all add: make_linux_arm32_mem make_linux_arm32_result Let_def mem_simps)

lemma fresh_linux_arm32:
  fixes m0 s :: arm32 and L :: "32 word labels"
  defines "m1 \<equiv> bthread_make_fcontext_linux_arm32 L m0"
  assumes kept: "same_on (reg m1 A1) 104 (mem s) (mem m1)"
    and to: "reg s A2 = reg m1 A1"
    and sb: "separate (reg s SP - 104) 104 (reg m1 A1) 104"
    and fb: "separate (reg s A1) 4 (reg m1 A1) 104"
  shows "pc (jump_linux_arm32_completed s) = Abs (reg m0 A3)"
    and "reg (jump_linux_arm32_completed s) A1 = reg s A3"
    and "reg (jump_linux_arm32_completed s) LR = L ''finish''"
    and "reg (jump_linux_arm32_completed s) SP = reg m1 A1 + 104"
proof -
  note fr = jump_linux_arm32_outgoing_frame [OF sb fb]
  note ag = same_on_load [OF kept]
  note seeds = make_linux_arm32_seeds [where L = L and s = m0, folded m1_def]
  show "pc (jump_linux_arm32_completed s) = Abs (reg m0 A3)"
    and "reg (jump_linux_arm32_completed s) A1 = reg s A3"
    and "reg (jump_linux_arm32_completed s) LR = L ''finish''"
    and "reg (jump_linux_arm32_completed s) SP = reg m1 A1 + 104"
    by (simp_all add: jump_linux_arm32_effect Let_def to fr ag seeds numeral_plus_word)
qed










































end
